theory Spec2Isabelle
  imports Main "HOL-Library.Word"
begin

section \<open>Machine types and status codes\<close>

text \<open>
  The target is a 64-bit UEFI platform: \<open>UINTN\<close>, \<open>EFI_STATUS\<close>, handles and
  pointers are 64-bit values; arithmetic on them wraps modulo \<open>2^64\<close>. A pointer is
  its address, \<open>NULL\<close> is address 0.
\<close>

type_synonym UINTN = "64 word"
type_synonym UINT32 = "32 word"
type_synonym EFI_STATUS = "64 word"
type_synonym EFI_HANDLE = "64 word"
type_synonym pointer = "64 word"

definition NULL :: pointer where
  "NULL = 0"

text \<open>
  Modelled from the spec: the header \<open>uefi/status.h\<close> (the \<open>EFI_STATUS\<close> codes
  and the macro \<open>EFI_ERROR\<close>) is not among the sources. The spec names the
  statuses; their values here are those of the UEFI specification on a 64-bit
  platform: an error code has the top bit set, and \<open>EFI_ERROR(s)\<close> is
  \<open>((INTN) s) < 0\<close>, so that a warning (a non-zero status with the top bit clear)
  is not an error.
\<close>

definition EFI_SUCCESS :: EFI_STATUS where
  "EFI_SUCCESS = 0"

definition EFI_INVALID_PARAMETER :: EFI_STATUS where
  "EFI_INVALID_PARAMETER = 0x8000000000000002"

definition EFI_BUFFER_TOO_SMALL :: EFI_STATUS where
  "EFI_BUFFER_TOO_SMALL = 0x8000000000000005"

definition EFI_NOT_READY :: EFI_STATUS where
  "EFI_NOT_READY = 0x8000000000000006"

definition EFI_DEVICE_ERROR :: EFI_STATUS where
  "EFI_DEVICE_ERROR = 0x8000000000000007"

definition EFI_OUT_OF_RESOURCES :: EFI_STATUS where
  "EFI_OUT_OF_RESOURCES = 0x8000000000000009"

definition EFI_ABORTED :: EFI_STATUS where
  "EFI_ABORTED = 0x8000000000000015"

definition EFI_ERROR :: "EFI_STATUS \<Rightarrow> bool" where
  "EFI_ERROR s = (sint s < 0)"

definition MEMORY_MAP_MAX_RETRIES :: UINTN where
  "MEMORY_MAP_MAX_RETRIES = 8"

definition MEMORY_MAP_EXTRA_DESCRIPTORS :: UINTN where
  "MEMORY_MAP_EXTRA_DESCRIPTORS = 16"

definition EXIT_BOOT_SERVICES_MAX_RETRIES :: UINTN where
  "EXIT_BOOT_SERVICES_MAX_RETRIES = 8"

section \<open>The firmware boundary\<close>

text \<open>
  What one call of the firmware's \<open>GetMemoryMap\<close> leaves behind: its status and the
  values of the four locations it was given pointers to (size, map key, descriptor
  size, descriptor version).
\<close>

datatype gmm_out = GmmOut
  (gmm_status: EFI_STATUS)
  (gmm_size: UINTN)
  (gmm_key: UINTN)
  (gmm_dsize: UINTN)
  (gmm_dver: UINT32)

text \<open>
  The boot services table: the four function pointers the code calls. The firmware is
  arbitrary: each service is a function of the firmware's own state \<open>'f\<close> and of the
  arguments it is passed, returning what it reports and its next state.
  \<^item> \<open>GetMemoryMap size buffer key dsize dver\<close>: \<open>size\<close> and the three last
    arguments are the values the pointed-to locations hold at the call.
  \<^item> \<open>AllocatePool size\<close>: the pool type is always \<open>EfiLoaderData\<close> and is left
    out; the result is the status and the value left in \<open>*Buffer\<close>.
\<close>

record 'f EFI_BOOT_SERVICES =
  GetMemoryMap :: "UINTN \<Rightarrow> pointer \<Rightarrow> UINTN \<Rightarrow> UINTN \<Rightarrow> UINT32 \<Rightarrow> 'f \<Rightarrow> gmm_out \<times> 'f"
  AllocatePool :: "UINTN \<Rightarrow> 'f \<Rightarrow> (EFI_STATUS \<times> pointer) \<times> 'f"
  FreePool :: "pointer \<Rightarrow> 'f \<Rightarrow> EFI_STATUS \<times> 'f"
  ExitBootServices :: "EFI_HANDLE \<Rightarrow> UINTN \<Rightarrow> 'f \<Rightarrow> EFI_STATUS \<times> 'f"

text \<open>The system table \<open>gST\<close> points to; either pointer may be \<open>NULL\<close> (\<open>None\<close>).\<close>

record 'f EFI_SYSTEM_TABLE =
  BootServices :: "'f EFI_BOOT_SERVICES option"

text \<open>
  The log of firmware calls, in order. A \<open>GetMemoryMap\<close> call is tagged with the
  place it is made from: the size probe or the fetch into the allocated buffer.
\<close>

datatype gmm_site = Probe | Fetch

datatype event =
  EvGetMemoryMap gmm_site UINTN pointer gmm_out
  | EvAllocatePool UINTN EFI_STATUS pointer
  | EvFreePool pointer
  | EvExitBootServices EFI_HANDLE UINTN EFI_STATUS

record 'f machine =
  fw :: 'f
  trace :: "event list"

text \<open>
  The five local variables of \<open>exit_boot_services\<close> a memory map is reported in.
  They are five distinct objects, and no pointer to them leaves the function but in
  the calls of \<open>GetMemoryMap\<close>.
\<close>

record map_vars =
  MemoryMap :: pointer
  MemoryMapSize :: UINTN
  MapKey :: UINTN
  DescriptorSize :: UINTN
  DescriptorVersion :: UINT32

text \<open>The five pointer arguments of \<open>get_memory_map\<close>.\<close>

record gmm_params =
  pMemoryMap :: pointer
  pMemoryMapSize :: pointer
  pMapKey :: pointer
  pDescriptorSize :: pointer
  pDescriptorVersion :: pointer

text \<open>
  The caller's memory, which \<open>get_memory_map\<close> and the firmware reach through these
  pointers: the objects of each of the three types the pointers point to, by their
  addresses. \<open>MemoryMap\<close> points to an \<open>EFI_MEMORY_DESCRIPTOR *\<close>,
  \<open>MemoryMapSize\<close>, \<open>MapKey\<close> and \<open>DescriptorSize\<close> to a \<open>UINTN\<close>,
  \<open>DescriptorVersion\<close> to a \<open>UINT32\<close>. Pointers of one type that are equal point to
  the same object: what is stored through one is read through the other. Objects of
  different types do not overlap, and two \<open>UINTN\<close> objects are the same or disjoint,
  as in well-typed C.
\<close>

record memory =
  ptr_at :: "pointer \<Rightarrow> pointer"
  uintn_at :: "pointer \<Rightarrow> UINTN"
  uint32_at :: "pointer \<Rightarrow> UINT32"

subsection \<open>Calls through the table\<close>

text \<open>
  \<open>BS->GetMemoryMap(&MemoryMapSize, Buffer, &MapKey, &DescriptorSize,
  &DescriptorVersion)\<close> in \<open>exit_boot_services\<close>: the last three pointers are to
  the locals \<open>MapKey\<close>, \<open>DescriptorSize\<close> and \<open>DescriptorVersion\<close> of \<open>v\<close>, which
  the firmware overwrites; the updated size is in the result.
\<close>

definition call_GetMemoryMap ::
  "gmm_site \<Rightarrow> 'f EFI_BOOT_SERVICES \<Rightarrow> UINTN \<Rightarrow> pointer \<Rightarrow> map_vars \<Rightarrow> 'f machine
    \<Rightarrow> gmm_out \<times> map_vars \<times> 'f machine" where
  "call_GetMemoryMap site BS Size Buffer v m =
     (case GetMemoryMap BS Size Buffer (MapKey v) (DescriptorSize v) (DescriptorVersion v) (fw m) of
        (r, f') \<Rightarrow>
          (r,
           v\<lparr>MapKey := gmm_key r, DescriptorSize := gmm_dsize r, DescriptorVersion := gmm_dver r\<rparr>,
           m\<lparr>fw := f', trace := trace m @ [EvGetMemoryMap site Size Buffer r]\<rparr>))"

text \<open>
  \<open>BS->GetMemoryMap(&Size, Buffer, MapKey, DescriptorSize, DescriptorVersion)\<close> in
  \<open>get_memory_map\<close>: the last three arguments are the caller's pointers in \<open>p\<close>.
  The firmware is given what the three locations hold and stores its answers through
  the pointers, the key first, the descriptor size after it: when \<open>MapKey\<close> and
  \<open>DescriptorSize\<close> are the same pointer the location holds the descriptor size.
  \<open>&Size\<close> is the address of a local variable; the updated size is in the result.
\<close>

definition call_GetMemoryMap_through ::
  "gmm_site \<Rightarrow> 'f EFI_BOOT_SERVICES \<Rightarrow> UINTN \<Rightarrow> pointer \<Rightarrow> gmm_params \<Rightarrow> memory
    \<Rightarrow> 'f machine \<Rightarrow> gmm_out \<times> memory \<times> 'f machine" where
  "call_GetMemoryMap_through site BS Size Buffer p v m =
     (case GetMemoryMap BS Size Buffer (uintn_at v (pMapKey p)) (uintn_at v (pDescriptorSize p))
             (uint32_at v (pDescriptorVersion p)) (fw m) of
        (r, f') \<Rightarrow>
          (r,
           v\<lparr>uintn_at := (uintn_at v)(pMapKey p := gmm_key r, pDescriptorSize p := gmm_dsize r),
             uint32_at := (uint32_at v)(pDescriptorVersion p := gmm_dver r)\<rparr>,
           m\<lparr>fw := f', trace := trace m @ [EvGetMemoryMap site Size Buffer r]\<rparr>))"

definition call_AllocatePool ::
  "'f EFI_BOOT_SERVICES \<Rightarrow> UINTN \<Rightarrow> 'f machine \<Rightarrow> (EFI_STATUS \<times> pointer) \<times> 'f machine" where
  "call_AllocatePool BS Size m =
     (case AllocatePool BS Size (fw m) of
        ((Status, Buffer), f') \<Rightarrow>
          ((Status, Buffer), m\<lparr>fw := f', trace := trace m @ [EvAllocatePool Size Status Buffer]\<rparr>))"

text \<open>The code discards the status of \<open>FreePool\<close>.\<close>

definition call_FreePool :: "'f EFI_BOOT_SERVICES \<Rightarrow> pointer \<Rightarrow> 'f machine \<Rightarrow> 'f machine" where
  "call_FreePool BS Buffer m =
     (case FreePool BS Buffer (fw m) of
        (Status, f') \<Rightarrow> m\<lparr>fw := f', trace := trace m @ [EvFreePool Buffer]\<rparr>)"

definition call_ExitBootServices ::
  "'f EFI_BOOT_SERVICES \<Rightarrow> EFI_HANDLE \<Rightarrow> UINTN \<Rightarrow> 'f machine \<Rightarrow> EFI_STATUS \<times> 'f machine" where
  "call_ExitBootServices BS ImageHandle Key m =
     (case ExitBootServices BS ImageHandle Key (fw m) of
        (Status, f') \<Rightarrow>
          (Status, m\<lparr>fw := f', trace := trace m @ [EvExitBootServices ImageHandle Key Status]\<rparr>))"

section \<open>get_memory_map\<close>

text \<open>
  One round of the \<open>for\<close> loop of \<open>get_memory_map\<close>. The result is \<open>Some s\<close> when
  the round executes \<open>return s\<close> and \<open>None\<close> when it ends in \<open>continue\<close>. \<open>p\<close> are
  the five pointer arguments and \<open>v\<close> is the caller's memory: \<open>*DescriptorSize\<close> is
  \<open>uintn_at v (pDescriptorSize p)\<close>, and \<open>*MemoryMap = Map\<close> and
  \<open>*MemoryMapSize = Size\<close> store at \<open>pMemoryMap p\<close> and \<open>pMemoryMapSize p\<close>, in
  that order. The locals \<open>Size\<close> and \<open>Map\<close> are set anew in every round before they
  are read.
\<close>

definition get_memory_map_attempt ::
  "'f EFI_BOOT_SERVICES \<Rightarrow> gmm_params \<Rightarrow> memory \<Rightarrow> 'f machine
    \<Rightarrow> EFI_STATUS option \<times> memory \<times> 'f machine" where
  "get_memory_map_attempt BS p v m =
     (case call_GetMemoryMap_through Probe BS 0 NULL p v m of
        (r1, v1, m1) \<Rightarrow>
          if gmm_status r1 \<noteq> EFI_BUFFER_TOO_SMALL then (Some (gmm_status r1), v1, m1)
          else
            (let Size = gmm_size r1 + uintn_at v1 (pDescriptorSize p) * MEMORY_MAP_EXTRA_DESCRIPTORS in
             case call_AllocatePool BS Size m1 of
               ((Status, Map), m2) \<Rightarrow>
                 if EFI_ERROR Status then (Some Status, v1, m2)
                 else
                   (case call_GetMemoryMap_through Fetch BS Size Map p v1 m2 of
                      (r3, v3, m3) \<Rightarrow>
                        if EFI_ERROR (gmm_status r3) then (None, v3, call_FreePool BS Map m3)
                        else if Map mod 8 \<noteq> 0 then
                          (Some EFI_DEVICE_ERROR, v3, call_FreePool BS Map m3)
                        else
                          (Some EFI_SUCCESS,
                           v3\<lparr>ptr_at := (ptr_at v3)(pMemoryMap p := Map),
                              uintn_at := (uintn_at v3)(pMemoryMapSize p := gmm_size r3)\<rparr>,
                           m3))))"

text \<open>\<open>for (Retry = 0; Retry < MEMORY_MAP_MAX_RETRIES; Retry++)\<close> and the return after it.\<close>

function get_memory_map_loop ::
  "'f EFI_BOOT_SERVICES \<Rightarrow> gmm_params \<Rightarrow> UINTN \<Rightarrow> memory \<Rightarrow> 'f machine
    \<Rightarrow> EFI_STATUS \<times> memory \<times> 'f machine" where
  "get_memory_map_loop BS p Retry v m =
     (if Retry < MEMORY_MAP_MAX_RETRIES then
        (case get_memory_map_attempt BS p v m of
           (Some Status, v', m') \<Rightarrow> (Status, v', m')
         | (None, v', m') \<Rightarrow> get_memory_map_loop BS p (Retry + 1) v' m')
      else (EFI_DEVICE_ERROR, v, m))"
  by pat_completeness auto
termination
proof (relation "measure (\<lambda>(BS, p, Retry, v, m). 8 - unat Retry)")
  show "wf (measure (\<lambda>(BS, p, Retry, v, m). 8 - unat Retry))"
    by simp
next
  fix BS :: "'f EFI_BOOT_SERVICES" and p :: gmm_params and Retry :: UINTN and v :: memory
    and m :: "'f machine"
    and x :: "EFI_STATUS option \<times> memory \<times> 'f machine" and xa y xb ya
  assume "Retry < MEMORY_MAP_MAX_RETRIES"
  then have lt: "unat Retry < 8"
    by (simp add: MEMORY_MAP_MAX_RETRIES_def word_less_nat_alt)
  then have "unat (Retry + 1) = unat Retry + 1"
    by (simp add: unat_word_ariths)
  with lt show "((BS, p, Retry + 1, ya, xb), BS, p, Retry, v, m)
      \<in> measure (\<lambda>(BS, p, Retry, v, m). 8 - unat Retry)"
    by simp
qed

text \<open>\<open>v\<close> is the caller's memory before the call; the memory after it is returned.\<close>

definition get_memory_map ::
  "'f EFI_SYSTEM_TABLE option \<Rightarrow> gmm_params \<Rightarrow> memory \<Rightarrow> 'f machine
    \<Rightarrow> EFI_STATUS \<times> memory \<times> 'f machine" where
  "get_memory_map gST p v m =
     (if pMemoryMap p = NULL \<or> pMemoryMapSize p = NULL \<or> pMapKey p = NULL
         \<or> pDescriptorSize p = NULL \<or> pDescriptorVersion p = NULL
      then (EFI_INVALID_PARAMETER, v, m)
      else
        (case gST of
           None \<Rightarrow> (EFI_NOT_READY, v, m)
         | Some ST \<Rightarrow>
             (case BootServices ST of
                None \<Rightarrow> (EFI_NOT_READY, v, m)
              | Some BS \<Rightarrow> get_memory_map_loop BS p 0 v m)))"

section \<open>exit_boot_services\<close>

text \<open>
  One round of the \<open>for\<close> loop of \<open>exit_boot_services\<close>; \<open>v\<close> holds the local
  variables \<open>MemoryMap\<close>, \<open>MemoryMapSize\<close>, \<open>MapKey\<close>, \<open>DescriptorSize\<close> and
  \<open>DescriptorVersion\<close>. \<open>None\<close> is the end of the loop body, reached by
  \<open>continue\<close> or by falling through.
\<close>

definition exit_boot_services_attempt ::
  "'f EFI_BOOT_SERVICES \<Rightarrow> EFI_HANDLE \<Rightarrow> map_vars \<Rightarrow> 'f machine
    \<Rightarrow> EFI_STATUS option \<times> map_vars \<times> 'f machine" where
  "exit_boot_services_attempt BS ImageHandle v m =
     (case call_GetMemoryMap Probe BS 0 NULL (v\<lparr>MemoryMapSize := 0\<rparr>) m of
        (r1, v1, m1) \<Rightarrow>
          if gmm_status r1 \<noteq> EFI_BUFFER_TOO_SMALL
          then (Some (gmm_status r1), v1\<lparr>MemoryMapSize := gmm_size r1\<rparr>, m1)
          else
            (let Size = gmm_size r1 + DescriptorSize v1 * 8 in
             case call_AllocatePool BS Size m1 of
               ((Status, Map), m2) \<Rightarrow>
                 if EFI_ERROR Status
                 then (Some Status, v1\<lparr>MemoryMap := Map, MemoryMapSize := Size\<rparr>, m2)
                 else
                   (case call_GetMemoryMap Fetch BS Size Map v1 m2 of
                      (r3, v3, m3) \<Rightarrow>
                        if EFI_ERROR (gmm_status r3) then
                          (None, v3\<lparr>MemoryMap := NULL, MemoryMapSize := gmm_size r3\<rparr>,
                           call_FreePool BS Map m3)
                        else
                          (case call_ExitBootServices BS ImageHandle (MapKey v3) m3 of
                             (Status', m4) \<Rightarrow>
                               if Status' = EFI_SUCCESS then
                                 (Some EFI_SUCCESS,
                                  v3\<lparr>MemoryMap := Map, MemoryMapSize := gmm_size r3\<rparr>, m4)
                               else
                                 (None, v3\<lparr>MemoryMap := NULL, MemoryMapSize := gmm_size r3\<rparr>,
                                  call_FreePool BS Map m4)))))"

function exit_boot_services_loop ::
  "'f EFI_BOOT_SERVICES \<Rightarrow> EFI_HANDLE \<Rightarrow> UINTN \<Rightarrow> map_vars \<Rightarrow> 'f machine
    \<Rightarrow> EFI_STATUS \<times> 'f machine" where
  "exit_boot_services_loop BS ImageHandle Retry v m =
     (if Retry < EXIT_BOOT_SERVICES_MAX_RETRIES then
        (case exit_boot_services_attempt BS ImageHandle v m of
           (Some Status, v', m') \<Rightarrow> (Status, m')
         | (None, v', m') \<Rightarrow> exit_boot_services_loop BS ImageHandle (Retry + 1) v' m')
      else (EFI_ABORTED, m))"
  by pat_completeness auto
termination
proof (relation "measure (\<lambda>(BS, h, Retry, v, m). 8 - unat Retry)")
  show "wf (measure (\<lambda>(BS, h, Retry, v, m). 8 - unat Retry))"
    by simp
next
  fix BS :: "'f EFI_BOOT_SERVICES" and ImageHandle :: EFI_HANDLE and Retry :: UINTN
    and v :: map_vars and m :: "'f machine"
    and x :: "EFI_STATUS option \<times> map_vars \<times> 'f machine" and xa y xb ya
  assume "Retry < EXIT_BOOT_SERVICES_MAX_RETRIES"
  then have lt: "unat Retry < 8"
    by (simp add: EXIT_BOOT_SERVICES_MAX_RETRIES_def word_less_nat_alt)
  then have "unat (Retry + 1) = unat Retry + 1"
    by (simp add: unat_word_ariths)
  with lt show "((BS, ImageHandle, Retry + 1, ya, xb), BS, ImageHandle, Retry, v, m)
      \<in> measure (\<lambda>(BS, h, Retry, v, m). 8 - unat Retry)"
    by simp
qed

text \<open>The locals start as \<open>NULL\<close> and 0.\<close>

definition exit_boot_services ::
  "'f EFI_SYSTEM_TABLE option \<Rightarrow> EFI_HANDLE \<Rightarrow> 'f machine \<Rightarrow> EFI_STATUS \<times> 'f machine" where
  "exit_boot_services gST ImageHandle m =
     (if ImageHandle = NULL then (EFI_INVALID_PARAMETER, m)
      else
        (case gST of
           None \<Rightarrow> (EFI_NOT_READY, m)
         | Some ST \<Rightarrow>
             (case BootServices ST of
                None \<Rightarrow> (EFI_NOT_READY, m)
              | Some BS \<Rightarrow>
                  exit_boot_services_loop BS ImageHandle 0
                    \<lparr>MemoryMap = NULL, MemoryMapSize = 0, MapKey = 0,
                     DescriptorSize = 0, DescriptorVersion = 0\<rparr> m)))"

section \<open>Executions as sequences of firmware calls\<close>

text \<open>The firmware calls made between machine state \<open>m\<close> and a later state \<open>m'\<close>.\<close>

definition calls_made :: "'f machine \<Rightarrow> 'f machine \<Rightarrow> event list" where
  "calls_made m m' = drop (length (trace m)) (trace m')"

text \<open>The environment is ready when \<open>gST\<close> and \<open>gST->BootServices\<close> are not \<open>NULL\<close>.\<close>

definition ready :: "'f EFI_SYSTEM_TABLE option \<Rightarrow> bool" where
  "ready gST = (case gST of None \<Rightarrow> False | Some ST \<Rightarrow> BootServices ST \<noteq> None)"

definition params_valid :: "gmm_params \<Rightarrow> bool" where
  "params_valid p =
     (pMemoryMap p \<noteq> NULL \<and> pMemoryMapSize p \<noteq> NULL \<and> pMapKey p \<noteq> NULL
      \<and> pDescriptorSize p \<noteq> NULL \<and> pDescriptorVersion p \<noteq> NULL)"

subsection \<open>Kinds of calls\<close>

fun is_probe :: "event \<Rightarrow> bool" where
  "is_probe (EvGetMemoryMap Probe sz b r) = True"
| "is_probe _ = False"

fun fetch_failed :: "event \<Rightarrow> bool" where
  "fetch_failed (EvGetMemoryMap Fetch sz b r) = EFI_ERROR (gmm_status r)"
| "fetch_failed _ = False"

fun fetch_succeeded :: "event \<Rightarrow> bool" where
  "fetch_succeeded (EvGetMemoryMap Fetch sz b r) = (\<not> EFI_ERROR (gmm_status r))"
| "fetch_succeeded _ = False"

text \<open>A fetch that succeeded into a buffer whose address is, or is not, a multiple of 8.\<close>

fun fetch_aligned :: "event \<Rightarrow> bool" where
  "fetch_aligned (EvGetMemoryMap Fetch sz b r) = (\<not> EFI_ERROR (gmm_status r) \<and> b mod 8 = 0)"
| "fetch_aligned _ = False"

fun fetch_misaligned :: "event \<Rightarrow> bool" where
  "fetch_misaligned (EvGetMemoryMap Fetch sz b r) = (\<not> EFI_ERROR (gmm_status r) \<and> b mod 8 \<noteq> 0)"
| "fetch_misaligned _ = False"

text \<open>An \<open>AllocatePool\<close> call that did not fail hands out a buffer.\<close>

fun allocated :: "event \<Rightarrow> bool" where
  "allocated (EvAllocatePool sz a p) = (\<not> EFI_ERROR a)"
| "allocated _ = False"

fun released :: "event \<Rightarrow> bool" where
  "released (EvFreePool p) = True"
| "released _ = False"

fun is_handshake :: "event \<Rightarrow> bool" where
  "is_handshake (EvExitBootServices h key x) = True"
| "is_handshake _ = False"

text \<open>What a scenario can ask of a call: a probe that reports buffer-too-small, an
  allocation that does not fail, a handshake that does not succeed.\<close>

fun probe_refused :: "event \<Rightarrow> bool" where
  "probe_refused (EvGetMemoryMap Probe sz b r) = (gmm_status r = EFI_BUFFER_TOO_SMALL)"
| "probe_refused _ = True"

fun allocation_granted :: "event \<Rightarrow> bool" where
  "allocation_granted (EvAllocatePool sz a p) = (\<not> EFI_ERROR a)"
| "allocation_granted _ = True"

fun handshake_refused :: "event \<Rightarrow> bool" where
  "handshake_refused (EvExitBootServices h key x) = (x \<noteq> EFI_SUCCESS)"
| "handshake_refused _ = True"

text \<open>
  The buffers handed out and not yet released, in the order of their allocation: each
  release takes one buffer of that address away.
\<close>

fun outstanding :: "pointer list \<Rightarrow> event list \<Rightarrow> pointer list" where
  "outstanding held [] = held"
| "outstanding held (EvAllocatePool sz a p # es) =
     outstanding (if EFI_ERROR a then held else held @ [p]) es"
| "outstanding held (EvFreePool p # es) = outstanding (remove1 p held) es"
| "outstanding held (e # es) = outstanding held es"

subsection \<open>Properties of every call of an execution\<close>

text \<open>
  \<open>each_call P earlier evs\<close>: \<open>P\<close> holds of every call of \<open>evs\<close>, given the calls
  before it, the most recent first (\<open>earlier\<close> are those made before \<open>evs\<close>), and the
  calls after it.
\<close>

fun each_call ::
  "(event list \<Rightarrow> event \<Rightarrow> event list \<Rightarrow> bool) \<Rightarrow> event list \<Rightarrow> event list \<Rightarrow> bool" where
  "each_call P earlier [] = True"
| "each_call P earlier (e # es) = (P earlier e es \<and> each_call P (e # earlier) es)"

text \<open>A buffer is allocated when no other buffer is outstanding.\<close>

definition alone_at :: "event list \<Rightarrow> event \<Rightarrow> event list \<Rightarrow> bool" where
  "alone_at earlier e later =
     (case e of
        EvAllocatePool sz a p \<Rightarrow> outstanding [] (rev earlier) = []
      | _ \<Rightarrow> True)"

text \<open>An allocation directly follows a probe and asks for the probed size plus
  \<open>k\<close> descriptors.\<close>

definition slack_at :: "UINTN \<Rightarrow> event list \<Rightarrow> event \<Rightarrow> event list \<Rightarrow> bool" where
  "slack_at k earlier e later =
     (case e of
        EvAllocatePool sz a p \<Rightarrow>
          (case earlier of
             EvGetMemoryMap Probe z b r1 # _ \<Rightarrow> sz = gmm_size r1 + gmm_dsize r1 * k
           | _ \<Rightarrow> False)
      | _ \<Rightarrow> True)"

text \<open>
  A handshake is made with handle \<open>h\<close> and with the key of the fetch made just before
  it, a fetch that succeeded into the buffer allocated just before that fetch, after
  a probe that reported buffer-too-small.
\<close>

definition fresh_at :: "EFI_HANDLE \<Rightarrow> event list \<Rightarrow> event \<Rightarrow> event list \<Rightarrow> bool" where
  "fresh_at h earlier e later =
     (case e of
        EvExitBootServices h' key x \<Rightarrow>
          (case earlier of
             EvGetMemoryMap Fetch sz p r3 # EvAllocatePool sz' a p' # EvGetMemoryMap Probe z b r1 # _ \<Rightarrow>
               h' = h \<and> key = gmm_key r3 \<and> \<not> EFI_ERROR (gmm_status r3) \<and> p = p' \<and> sz = sz'
               \<and> \<not> EFI_ERROR a \<and> gmm_status r1 = EFI_BUFFER_TOO_SMALL
           | _ \<Rightarrow> False)
      | _ \<Rightarrow> True)"

text \<open>
  In \<open>get_memory_map\<close> (status \<open>st\<close>, final \<open>*MemoryMap\<close> \<open>mm\<close>): a fetch that
  succeeded was made into the buffer allocated just before it; if the buffer is
  aligned the fetch is the last call, the status is success and the buffer is stored;
  if not, exactly one call follows, the release of that buffer, and the status is
  \<open>EFI_DEVICE_ERROR\<close>.
\<close>

definition alignment_checked ::
  "EFI_STATUS \<Rightarrow> pointer \<Rightarrow> event list \<Rightarrow> event \<Rightarrow> event list \<Rightarrow> bool" where
  "alignment_checked st mm earlier e later =
     (case e of
        EvGetMemoryMap Fetch sz p r3 \<Rightarrow>
          (if EFI_ERROR (gmm_status r3) then True
           else
             (case earlier of
                EvAllocatePool sz' a p' # _ \<Rightarrow>
                  p' = p
                  \<and> (if p mod 8 = 0 then later = [] \<and> st = EFI_SUCCESS \<and> mm = p
                     else later = [EvFreePool p] \<and> st = EFI_DEVICE_ERROR)
              | _ \<Rightarrow> False))
      | _ \<Rightarrow> True)"

text \<open>In \<open>exit_boot_services\<close>: the call after a fetch that succeeded is the
  handshake, with the fetched key, wherever the buffer lies.\<close>

definition handshake_follows :: "EFI_HANDLE \<Rightarrow> event list \<Rightarrow> event \<Rightarrow> event list \<Rightarrow> bool" where
  "handshake_follows h earlier e later =
     (case e of
        EvGetMemoryMap Fetch sz p r3 \<Rightarrow>
          (if EFI_ERROR (gmm_status r3) then True
           else
             (case later of
                EvExitBootServices h' key x # _ \<Rightarrow> h' = h \<and> key = gmm_key r3
              | _ \<Rightarrow> False))
      | _ \<Rightarrow> True)"

subsection \<open>The shapes of executions\<close>

text \<open>
  \<open>written p v w v'\<close>: what memory \<open>v'\<close> holds after an execution of
  \<open>get_memory_map\<close> that started in \<open>v\<close>. With \<open>w = Some (b, s)\<close>, \<open>*MemoryMap\<close>
  is \<open>b\<close> and \<open>*MemoryMapSize\<close> is \<open>s\<close>. With \<open>w = None\<close> no pointer object has
  changed and no \<open>UINTN\<close> object but those \<open>MapKey\<close> and \<open>DescriptorSize\<close>
  point to.
\<close>

definition written :: "gmm_params \<Rightarrow> memory \<Rightarrow> (pointer \<times> UINTN) option \<Rightarrow> memory \<Rightarrow> bool" where
  "written p v w v' =
     (case w of
        None \<Rightarrow>
          ptr_at v' = ptr_at v
          \<and> (\<forall>a. a \<noteq> pMapKey p \<and> a \<noteq> pDescriptorSize p \<longrightarrow> uintn_at v' a = uintn_at v a)
      | Some (b, s) \<Rightarrow> ptr_at v' (pMemoryMap p) = b \<and> uintn_at v' (pMemoryMapSize p) = s)"

text \<open>
  \<open>gmm_run n evs st w\<close>: the calls \<open>evs\<close>, the status \<open>st\<close> and the stores \<open>w\<close> of
  the loop of \<open>get_memory_map\<close> with \<open>n\<close> rounds left. One rule for each way a round
  can go; the lemma \<open>gmm_loop_run\<close> below shows that every execution of the loop is
  of one of these shapes.
\<close>

inductive gmm_run :: "nat \<Rightarrow> event list \<Rightarrow> EFI_STATUS \<Rightarrow> (pointer \<times> UINTN) option \<Rightarrow> bool" where
  gmm_exhausted: "gmm_run 0 [] EFI_DEVICE_ERROR None"
| gmm_probe_anomaly:
    "gmm_status r1 \<noteq> EFI_BUFFER_TOO_SMALL
     \<Longrightarrow> gmm_run (Suc n) [EvGetMemoryMap Probe 0 NULL r1] (gmm_status r1) None"
| gmm_alloc_failed:
    "gmm_status r1 = EFI_BUFFER_TOO_SMALL \<Longrightarrow> EFI_ERROR a
     \<Longrightarrow> gmm_run (Suc n)
          [EvGetMemoryMap Probe 0 NULL r1,
           EvAllocatePool (gmm_size r1 + gmm_dsize r1 * 16) a p] a None"
| gmm_fetch_failed:
    "gmm_status r1 = EFI_BUFFER_TOO_SMALL \<Longrightarrow> \<not> EFI_ERROR a \<Longrightarrow> EFI_ERROR (gmm_status r3)
     \<Longrightarrow> gmm_run n evs s w
     \<Longrightarrow> gmm_run (Suc n)
          (EvGetMemoryMap Probe 0 NULL r1
           # EvAllocatePool (gmm_size r1 + gmm_dsize r1 * 16) a p
           # EvGetMemoryMap Fetch (gmm_size r1 + gmm_dsize r1 * 16) p r3
           # EvFreePool p # evs) s w"
| gmm_misaligned:
    "gmm_status r1 = EFI_BUFFER_TOO_SMALL \<Longrightarrow> \<not> EFI_ERROR a \<Longrightarrow> \<not> EFI_ERROR (gmm_status r3)
     \<Longrightarrow> p mod 8 \<noteq> 0
     \<Longrightarrow> gmm_run (Suc n)
          [EvGetMemoryMap Probe 0 NULL r1,
           EvAllocatePool (gmm_size r1 + gmm_dsize r1 * 16) a p,
           EvGetMemoryMap Fetch (gmm_size r1 + gmm_dsize r1 * 16) p r3,
           EvFreePool p] EFI_DEVICE_ERROR None"
| gmm_success:
    "gmm_status r1 = EFI_BUFFER_TOO_SMALL \<Longrightarrow> \<not> EFI_ERROR a \<Longrightarrow> \<not> EFI_ERROR (gmm_status r3)
     \<Longrightarrow> p mod 8 = 0
     \<Longrightarrow> gmm_run (Suc n)
          [EvGetMemoryMap Probe 0 NULL r1,
           EvAllocatePool (gmm_size r1 + gmm_dsize r1 * 16) a p,
           EvGetMemoryMap Fetch (gmm_size r1 + gmm_dsize r1 * 16) p r3]
          EFI_SUCCESS (Some (p, gmm_size r3))"

text \<open>The same for the loop of \<open>exit_boot_services\<close> called with handle \<open>h\<close>.\<close>

inductive ebs_run :: "EFI_HANDLE \<Rightarrow> nat \<Rightarrow> event list \<Rightarrow> EFI_STATUS \<Rightarrow> bool" where
  ebs_exhausted: "ebs_run h 0 [] EFI_ABORTED"
| ebs_probe_anomaly:
    "gmm_status r1 \<noteq> EFI_BUFFER_TOO_SMALL
     \<Longrightarrow> ebs_run h (Suc n) [EvGetMemoryMap Probe 0 NULL r1] (gmm_status r1)"
| ebs_alloc_failed:
    "gmm_status r1 = EFI_BUFFER_TOO_SMALL \<Longrightarrow> EFI_ERROR a
     \<Longrightarrow> ebs_run h (Suc n)
          [EvGetMemoryMap Probe 0 NULL r1,
           EvAllocatePool (gmm_size r1 + gmm_dsize r1 * 8) a p] a"
| ebs_fetch_failed:
    "gmm_status r1 = EFI_BUFFER_TOO_SMALL \<Longrightarrow> \<not> EFI_ERROR a \<Longrightarrow> EFI_ERROR (gmm_status r3)
     \<Longrightarrow> ebs_run h n evs s
     \<Longrightarrow> ebs_run h (Suc n)
          (EvGetMemoryMap Probe 0 NULL r1
           # EvAllocatePool (gmm_size r1 + gmm_dsize r1 * 8) a p
           # EvGetMemoryMap Fetch (gmm_size r1 + gmm_dsize r1 * 8) p r3
           # EvFreePool p # evs) s"
| ebs_exited:
    "gmm_status r1 = EFI_BUFFER_TOO_SMALL \<Longrightarrow> \<not> EFI_ERROR a \<Longrightarrow> \<not> EFI_ERROR (gmm_status r3)
     \<Longrightarrow> ebs_run h (Suc n)
          [EvGetMemoryMap Probe 0 NULL r1,
           EvAllocatePool (gmm_size r1 + gmm_dsize r1 * 8) a p,
           EvGetMemoryMap Fetch (gmm_size r1 + gmm_dsize r1 * 8) p r3,
           EvExitBootServices h (gmm_key r3) EFI_SUCCESS] EFI_SUCCESS"
| ebs_refused:
    "gmm_status r1 = EFI_BUFFER_TOO_SMALL \<Longrightarrow> \<not> EFI_ERROR a \<Longrightarrow> \<not> EFI_ERROR (gmm_status r3)
     \<Longrightarrow> x \<noteq> EFI_SUCCESS \<Longrightarrow> ebs_run h n evs s
     \<Longrightarrow> ebs_run h (Suc n)
          (EvGetMemoryMap Probe 0 NULL r1
           # EvAllocatePool (gmm_size r1 + gmm_dsize r1 * 8) a p
           # EvGetMemoryMap Fetch (gmm_size r1 + gmm_dsize r1 * 8) p r3
           # EvExitBootServices h (gmm_key r3) x
           # EvFreePool p # evs) s"

section \<open>A firmware to run the code on\<close>

text \<open>
  A small firmware for concrete runs. Its state counts the fetches, the allocations
  and the handshakes made so far. A probe (null buffer) reports \<open>probe_status\<close>, a
  required size of 4096 bytes and descriptors of 48 bytes; the first
  \<open>failing_fetches\<close> fetches fail with buffer-too-small, the later ones succeed with
  4200 bytes and a key that differs from fetch to fetch; the pool hands out
  \<open>pool_base\<close>, \<open>pool_base + 0x1000\<close>, ...; the handshake succeeds at the call
  numbered \<open>exit_succeeds_at\<close> only, and refuses a key as stale otherwise.
\<close>

record sim_state =
  fetches :: nat
  allocations :: nat
  handshakes :: nat

record sim_config =
  probe_status :: EFI_STATUS
  failing_fetches :: nat
  pool_base :: pointer
  exit_succeeds_at :: nat

definition sim_GetMemoryMap ::
  "sim_config \<Rightarrow> UINTN \<Rightarrow> pointer \<Rightarrow> UINTN \<Rightarrow> UINTN \<Rightarrow> UINT32 \<Rightarrow> sim_state
    \<Rightarrow> gmm_out \<times> sim_state" where
  "sim_GetMemoryMap c sz buffer key ds dv s =
     (if buffer = NULL then (GmmOut (probe_status c) 4096 key 48 1, s)
      else if fetches s < failing_fetches c
      then (GmmOut EFI_BUFFER_TOO_SMALL 8192 key 48 1, s\<lparr>fetches := fetches s + 1\<rparr>)
      else (GmmOut EFI_SUCCESS 4200 (0x1122 + of_nat (fetches s)) 48 1,
            s\<lparr>fetches := fetches s + 1\<rparr>))"

definition sim_AllocatePool ::
  "sim_config \<Rightarrow> UINTN \<Rightarrow> sim_state \<Rightarrow> (EFI_STATUS \<times> pointer) \<times> sim_state" where
  "sim_AllocatePool c sz s =
     ((EFI_SUCCESS, pool_base c + 0x1000 * of_nat (allocations s)),
      s\<lparr>allocations := allocations s + 1\<rparr>)"

definition sim_FreePool :: "pointer \<Rightarrow> sim_state \<Rightarrow> EFI_STATUS \<times> sim_state" where
  "sim_FreePool buffer s = (EFI_SUCCESS, s)"

definition sim_ExitBootServices ::
  "sim_config \<Rightarrow> EFI_HANDLE \<Rightarrow> UINTN \<Rightarrow> sim_state \<Rightarrow> EFI_STATUS \<times> sim_state" where
  "sim_ExitBootServices c h key s =
     (if handshakes s + 1 = exit_succeeds_at c then EFI_SUCCESS else EFI_INVALID_PARAMETER,
      s\<lparr>handshakes := handshakes s + 1\<rparr>)"

definition sim_BS :: "sim_config \<Rightarrow> sim_state EFI_BOOT_SERVICES" where
  "sim_BS c =
     \<lparr>GetMemoryMap = sim_GetMemoryMap c, AllocatePool = sim_AllocatePool c,
      FreePool = sim_FreePool, ExitBootServices = sim_ExitBootServices c\<rparr>"

definition sim_gST :: "sim_config \<Rightarrow> sim_state EFI_SYSTEM_TABLE option" where
  "sim_gST c = Some \<lparr>BootServices = Some (sim_BS c)\<rparr>"

definition sim_start :: "sim_state machine" where
  "sim_start = \<lparr>fw = \<lparr>fetches = 0, allocations = 0, handshakes = 0\<rparr>, trace = []\<rparr>"

text \<open>A well-behaved firmware: \<open>n\<close> failing fetches, the pool at \<open>base\<close>, the
  handshake succeeding at call \<open>k\<close>.\<close>

definition sim :: "nat \<Rightarrow> pointer \<Rightarrow> nat \<Rightarrow> sim_config" where
  "sim n base k =
     \<lparr>probe_status = EFI_BUFFER_TOO_SMALL, failing_fetches = n, pool_base = base,
      exit_succeeds_at = k\<rparr>"

text \<open>A firmware whose probe reports success.\<close>

definition sim_probe_succeeds :: sim_config where
  "sim_probe_succeeds =
     \<lparr>probe_status = EFI_SUCCESS, failing_fetches = 0, pool_base = 0x100000,
      exit_succeeds_at = 1\<rparr>"

text \<open>A firmware that refuses every handshake as the well-behaved one does until its
  ninth, and whose pool is exhausted after one allocation.\<close>

definition sim_pool_runs_out :: "sim_state EFI_SYSTEM_TABLE option" where
  "sim_pool_runs_out =
     Some \<lparr>BootServices = Some ((sim_BS (sim 0 0x100000 9))
       \<lparr>AllocatePool :=
          (\<lambda>sz s. if allocations s = 0 then sim_AllocatePool (sim 0 0x100000 9) sz s
                   else ((EFI_OUT_OF_RESOURCES, NULL), s))\<rparr>)\<rparr>"

text \<open>The same, but with a probe that reports a device error once a handshake has
  been made.\<close>

definition sim_probe_breaks :: "sim_state EFI_SYSTEM_TABLE option" where
  "sim_probe_breaks =
     Some \<lparr>BootServices = Some ((sim_BS (sim 0 0x100000 9))
       \<lparr>GetMemoryMap :=
          (\<lambda>sz buffer key ds dv s.
             if buffer = NULL \<and> handshakes s \<noteq> 0 then (GmmOut EFI_DEVICE_ERROR 0 key ds dv, s)
             else sim_GetMemoryMap (sim 0 0x100000 9) sz buffer key ds dv s)\<rparr>)\<rparr>"

text \<open>Five valid pointers to five objects, and a memory with recognisable contents in
  \<open>*MemoryMap\<close> and \<open>*MemoryMapSize\<close>.\<close>

definition some_params :: gmm_params where
  "some_params =
     \<lparr>pMemoryMap = 0x7000, pMemoryMapSize = 0x7008, pMapKey = 0x7010,
      pDescriptorSize = 0x7018, pDescriptorVersion = 0x7020\<rparr>"

definition some_memory :: memory where
  "some_memory =
     \<lparr>ptr_at = (\<lambda>a. 0xAAAA), uintn_at = (\<lambda>a. 0)(0x7008 := 0xBBBB), uint32_at = (\<lambda>a. 0)\<rparr>"

text \<open>Five valid pointers of which \<open>MemoryMapSize\<close> and \<open>DescriptorSize\<close> are the
  same.\<close>

definition aliased_params :: gmm_params where
  "aliased_params =
     \<lparr>pMemoryMap = 0x7000, pMemoryMapSize = 0x7008, pMapKey = 0x7010,
      pDescriptorSize = 0x7008, pDescriptorVersion = 0x7020\<rparr>"

section \<open>Basic facts\<close>

declare get_memory_map_loop.simps [simp del]
declare exit_boot_services_loop.simps [simp del]
declare mod_0_imp_dvd [rule del]

lemmas status_defs = EFI_SUCCESS_def EFI_INVALID_PARAMETER_def EFI_BUFFER_TOO_SMALL_def
  EFI_NOT_READY_def EFI_DEVICE_ERROR_def EFI_OUT_OF_RESOURCES_def EFI_ABORTED_def
  EFI_ERROR_def NULL_def

lemmas call_defs = call_GetMemoryMap_def call_GetMemoryMap_through_def call_AllocatePool_def
  call_FreePool_def
  call_ExitBootServices_def

lemmas sim_defs = sim_GetMemoryMap_def sim_AllocatePool_def sim_FreePool_def
  sim_ExitBootServices_def sim_BS_def sim_gST_def sim_start_def sim_def
  sim_probe_succeeds_def sim_pool_runs_out_def sim_probe_breaks_def some_params_def
  some_memory_def aliased_params_def

lemmas run_defs = get_memory_map_def get_memory_map_loop.simps get_memory_map_attempt_def
  exit_boot_services_def exit_boot_services_loop.simps exit_boot_services_attempt_def
  MEMORY_MAP_MAX_RETRIES_def MEMORY_MAP_EXTRA_DESCRIPTORS_def
  EXIT_BOOT_SERVICES_MAX_RETRIES_def calls_made_def

lemma status_facts [simp]:
  "EFI_ERROR EFI_BUFFER_TOO_SMALL" "EFI_ERROR EFI_DEVICE_ERROR" "EFI_ERROR EFI_ABORTED"
  "EFI_ERROR EFI_INVALID_PARAMETER" "EFI_ERROR EFI_NOT_READY" "\<not> EFI_ERROR EFI_SUCCESS"
  "EFI_BUFFER_TOO_SMALL \<noteq> EFI_SUCCESS" "EFI_DEVICE_ERROR \<noteq> EFI_SUCCESS"
  "EFI_ABORTED \<noteq> EFI_SUCCESS" "EFI_INVALID_PARAMETER \<noteq> EFI_SUCCESS"
  "EFI_NOT_READY \<noteq> EFI_SUCCESS" "EFI_SUCCESS \<noteq> EFI_BUFFER_TOO_SMALL"
  by (simp_all add: status_defs)

lemma error_not_success: "EFI_ERROR s \<Longrightarrow> s \<noteq> EFI_SUCCESS"
  by auto

lemma calls_made_append: "trace m' = trace m @ evs \<Longrightarrow> calls_made m m' = evs"
  by (simp add: calls_made_def)

lemma calls_made_same [simp]: "calls_made m m = []"
  by (simp add: calls_made_def)

lemma retry_unat:
  "(Retry :: UINTN) < 8 \<Longrightarrow> unat Retry < 8 \<and> unat (Retry + 1) = Suc (unat Retry)"
  by (simp add: word_less_nat_alt unat_word_ariths)

section \<open>Every execution has one of the shapes\<close>

lemma gmm_attempt_shape:
  assumes "get_memory_map_attempt BS p v m = (res, v', m')"
  shows "\<exists>r1 a buf r3.
    (res = Some (gmm_status r1) \<and> gmm_status r1 \<noteq> EFI_BUFFER_TOO_SMALL
       \<and> trace m' = trace m @ [EvGetMemoryMap Probe 0 NULL r1]
       \<and> written p v None v')
    \<or> (res = Some a \<and> gmm_status r1 = EFI_BUFFER_TOO_SMALL \<and> EFI_ERROR a
       \<and> trace m' = trace m @ [EvGetMemoryMap Probe 0 NULL r1,
             EvAllocatePool (gmm_size r1 + gmm_dsize r1 * 16) a buf]
       \<and> written p v None v')
    \<or> (res = None \<and> gmm_status r1 = EFI_BUFFER_TOO_SMALL \<and> \<not> EFI_ERROR a
       \<and> EFI_ERROR (gmm_status r3)
       \<and> trace m' = trace m @ [EvGetMemoryMap Probe 0 NULL r1,
             EvAllocatePool (gmm_size r1 + gmm_dsize r1 * 16) a buf,
             EvGetMemoryMap Fetch (gmm_size r1 + gmm_dsize r1 * 16) buf r3,
             EvFreePool buf]
       \<and> written p v None v')
    \<or> (res = Some EFI_DEVICE_ERROR \<and> gmm_status r1 = EFI_BUFFER_TOO_SMALL \<and> \<not> EFI_ERROR a
       \<and> \<not> EFI_ERROR (gmm_status r3) \<and> buf mod 8 \<noteq> 0
       \<and> trace m' = trace m @ [EvGetMemoryMap Probe 0 NULL r1,
             EvAllocatePool (gmm_size r1 + gmm_dsize r1 * 16) a buf,
             EvGetMemoryMap Fetch (gmm_size r1 + gmm_dsize r1 * 16) buf r3,
             EvFreePool buf]
       \<and> written p v None v')
    \<or> (res = Some EFI_SUCCESS \<and> gmm_status r1 = EFI_BUFFER_TOO_SMALL \<and> \<not> EFI_ERROR a
       \<and> \<not> EFI_ERROR (gmm_status r3) \<and> buf mod 8 = 0
       \<and> trace m' = trace m @ [EvGetMemoryMap Probe 0 NULL r1,
             EvAllocatePool (gmm_size r1 + gmm_dsize r1 * 16) a buf,
             EvGetMemoryMap Fetch (gmm_size r1 + gmm_dsize r1 * 16) buf r3]
       \<and> written p v (Some (buf, gmm_size r3)) v')"
  using assms
  unfolding get_memory_map_attempt_def call_defs Let_def MEMORY_MAP_EXTRA_DESCRIPTORS_def
  by (auto simp: written_def split: prod.splits if_splits)

lemma gmm_loop_done:
  "\<not> Retry < 8 \<Longrightarrow> get_memory_map_loop BS p Retry v m = (EFI_DEVICE_ERROR, v, m)"
  by (simp add: get_memory_map_loop.simps MEMORY_MAP_MAX_RETRIES_def)

lemma gmm_loop_return:
  "Retry < 8 \<Longrightarrow> get_memory_map_attempt BS p v m = (Some s, v1, m1)
   \<Longrightarrow> get_memory_map_loop BS p Retry v m = (s, v1, m1)"
  by (simp add: get_memory_map_loop.simps MEMORY_MAP_MAX_RETRIES_def)

lemma gmm_loop_continue:
  "Retry < 8 \<Longrightarrow> get_memory_map_attempt BS p v m = (None, v1, m1)
   \<Longrightarrow> get_memory_map_loop BS p Retry v m = get_memory_map_loop BS p (Retry + 1) v1 m1"
  by (simp add: get_memory_map_loop.simps MEMORY_MAP_MAX_RETRIES_def)

lemma gmm_loop_run:
  "8 - unat Retry = k \<Longrightarrow> get_memory_map_loop BS p Retry v m = (st, v', m')
   \<Longrightarrow> \<exists>evs w. trace m' = trace m @ evs \<and> gmm_run k evs st w \<and> written p v w v'"
proof (induction k arbitrary: Retry v m)
  case 0
  then have "\<not> Retry < 8"
    by (simp add: word_less_nat_alt)
  with 0 have "st = EFI_DEVICE_ERROR" "v' = v" "m' = m"
    by (simp_all add: gmm_loop_done)
  then show ?case
    by (auto simp: written_def intro: gmm_exhausted)
next
  case (Suc k)
  then have lt: "Retry < 8"
    by (simp add: word_less_nat_alt)
  with Suc.prems have k: "8 - unat (Retry + 1) = k"
    using retry_unat [OF lt] by simp
  obtain res v1 m1 where att: "get_memory_map_attempt BS p v m = (res, v1, m1)"
    by (cases "get_memory_map_attempt BS p v m") auto
  show ?case
  proof (cases res)
    case None
    with att lt Suc.prems have rest: "get_memory_map_loop BS p (Retry + 1) v1 m1 = (st, v', m')"
      by (simp add: gmm_loop_continue)
    from Suc.IH [OF k rest] obtain evs w where
      ih: "trace m' = trace m1 @ evs" "gmm_run k evs st w" "written p v1 w v'"
      by blast
    from gmm_attempt_shape [OF att] None obtain r1 a buf r3 where
      blk: "gmm_status r1 = EFI_BUFFER_TOO_SMALL" "\<not> EFI_ERROR a" "EFI_ERROR (gmm_status r3)"
        "trace m1 = trace m @ [EvGetMemoryMap Probe 0 NULL r1,
             EvAllocatePool (gmm_size r1 + gmm_dsize r1 * 16) a buf,
             EvGetMemoryMap Fetch (gmm_size r1 + gmm_dsize r1 * 16) buf r3,
             EvFreePool buf]"
        "written p v None v1"
      by auto
    have "gmm_run (Suc k)
          (EvGetMemoryMap Probe 0 NULL r1
           # EvAllocatePool (gmm_size r1 + gmm_dsize r1 * 16) a buf
           # EvGetMemoryMap Fetch (gmm_size r1 + gmm_dsize r1 * 16) buf r3
           # EvFreePool buf # evs) st w"
      using blk(1-3) ih(2) by (rule gmm_fetch_failed)
    moreover have "written p v w v'"
      using ih(3) blk(5) by (auto simp: written_def split: option.splits)
    moreover have "trace m' = trace m @ (EvGetMemoryMap Probe 0 NULL r1
           # EvAllocatePool (gmm_size r1 + gmm_dsize r1 * 16) a buf
           # EvGetMemoryMap Fetch (gmm_size r1 + gmm_dsize r1 * 16) buf r3
           # EvFreePool buf # evs)"
      using ih(1) blk(4) by simp
    ultimately show ?thesis
      by blast
  next
    case (Some s)
    with att lt Suc.prems have fin: "s = st" "v1 = v'" "m1 = m'"
      by (simp_all add: gmm_loop_return)
    from gmm_attempt_shape [OF att] Some fin show ?thesis
      by (elim exE disjE conjE)
        (simp_all, (blast intro: gmm_probe_anomaly gmm_alloc_failed gmm_misaligned gmm_success)+)
  qed
qed

text \<open>Every execution of \<open>get_memory_map\<close>: no call at all and an error status when
  a pointer is null or the environment is not ready, a run of eight rounds otherwise.\<close>

lemma get_memory_map_run:
  assumes "get_memory_map gST p v m = (st, v', m')"
  shows "trace m' = trace m @ calls_made m m'
    \<and> ((calls_made m m' = [] \<and> v' = v \<and> EFI_ERROR st \<and> \<not> (params_valid p \<and> ready gST))
       \<or> (params_valid p \<and> ready gST \<and> (\<exists>w. gmm_run 8 (calls_made m m') st w \<and> written p v w v')))"
proof (cases "params_valid p \<and> ready gST")
  case False
  with assms have "st = EFI_INVALID_PARAMETER \<or> st = EFI_NOT_READY" "v' = v" "m' = m"
    by (auto simp: get_memory_map_def params_valid_def ready_def split: option.splits if_splits)
  with False show ?thesis
    by auto
next
  case True
  then obtain ST BS where "gST = Some ST" "BootServices ST = Some BS"
    by (auto simp: ready_def split: option.splits)
  with True assms have "get_memory_map_loop BS p 0 v m = (st, v', m')"
    by (auto simp: get_memory_map_def params_valid_def)
  from gmm_loop_run [OF _ this, of 8] obtain evs w where
    "trace m' = trace m @ evs" "gmm_run 8 evs st w" "written p v w v'"
    by auto
  with True show ?thesis
    by (auto simp: calls_made_append)
qed

lemma ebs_attempt_shape:
  assumes "exit_boot_services_attempt BS h v m = (res, v', m')"
  shows "\<exists>r1 a p r3 x.
    (res = Some (gmm_status r1) \<and> gmm_status r1 \<noteq> EFI_BUFFER_TOO_SMALL
       \<and> trace m' = trace m @ [EvGetMemoryMap Probe 0 NULL r1])
    \<or> (res = Some a \<and> gmm_status r1 = EFI_BUFFER_TOO_SMALL \<and> EFI_ERROR a
       \<and> trace m' = trace m @ [EvGetMemoryMap Probe 0 NULL r1,
             EvAllocatePool (gmm_size r1 + gmm_dsize r1 * 8) a p])
    \<or> (res = None \<and> gmm_status r1 = EFI_BUFFER_TOO_SMALL \<and> \<not> EFI_ERROR a
       \<and> EFI_ERROR (gmm_status r3)
       \<and> trace m' = trace m @ [EvGetMemoryMap Probe 0 NULL r1,
             EvAllocatePool (gmm_size r1 + gmm_dsize r1 * 8) a p,
             EvGetMemoryMap Fetch (gmm_size r1 + gmm_dsize r1 * 8) p r3,
             EvFreePool p])
    \<or> (res = Some EFI_SUCCESS \<and> gmm_status r1 = EFI_BUFFER_TOO_SMALL \<and> \<not> EFI_ERROR a
       \<and> \<not> EFI_ERROR (gmm_status r3)
       \<and> trace m' = trace m @ [EvGetMemoryMap Probe 0 NULL r1,
             EvAllocatePool (gmm_size r1 + gmm_dsize r1 * 8) a p,
             EvGetMemoryMap Fetch (gmm_size r1 + gmm_dsize r1 * 8) p r3,
             EvExitBootServices h (gmm_key r3) EFI_SUCCESS])
    \<or> (res = None \<and> gmm_status r1 = EFI_BUFFER_TOO_SMALL \<and> \<not> EFI_ERROR a
       \<and> \<not> EFI_ERROR (gmm_status r3) \<and> x \<noteq> EFI_SUCCESS
       \<and> trace m' = trace m @ [EvGetMemoryMap Probe 0 NULL r1,
             EvAllocatePool (gmm_size r1 + gmm_dsize r1 * 8) a p,
             EvGetMemoryMap Fetch (gmm_size r1 + gmm_dsize r1 * 8) p r3,
             EvExitBootServices h (gmm_key r3) x,
             EvFreePool p])"
  using assms
  unfolding exit_boot_services_attempt_def call_defs Let_def
  by (auto split: prod.splits if_splits)

lemma ebs_loop_done:
  "\<not> Retry < 8 \<Longrightarrow> exit_boot_services_loop BS h Retry v m = (EFI_ABORTED, m)"
  by (simp add: exit_boot_services_loop.simps EXIT_BOOT_SERVICES_MAX_RETRIES_def)

lemma ebs_loop_return:
  "Retry < 8 \<Longrightarrow> exit_boot_services_attempt BS h v m = (Some s, v1, m1)
   \<Longrightarrow> exit_boot_services_loop BS h Retry v m = (s, m1)"
  by (simp add: exit_boot_services_loop.simps EXIT_BOOT_SERVICES_MAX_RETRIES_def)

lemma ebs_loop_continue:
  "Retry < 8 \<Longrightarrow> exit_boot_services_attempt BS h v m = (None, v1, m1)
   \<Longrightarrow> exit_boot_services_loop BS h Retry v m = exit_boot_services_loop BS h (Retry + 1) v1 m1"
  by (simp add: exit_boot_services_loop.simps EXIT_BOOT_SERVICES_MAX_RETRIES_def)

lemma ebs_loop_run:
  "8 - unat Retry = k \<Longrightarrow> exit_boot_services_loop BS h Retry v m = (st, m')
   \<Longrightarrow> \<exists>evs. trace m' = trace m @ evs \<and> ebs_run h k evs st"
proof (induction k arbitrary: Retry v m)
  case 0
  then have "\<not> Retry < 8"
    by (simp add: word_less_nat_alt)
  with 0 have "st = EFI_ABORTED" "m' = m"
    by (simp_all add: ebs_loop_done)
  then show ?case
    by (auto intro: ebs_exhausted)
next
  case (Suc k)
  then have lt: "Retry < 8"
    by (simp add: word_less_nat_alt)
  with Suc.prems have k: "8 - unat (Retry + 1) = k"
    using retry_unat [OF lt] by simp
  obtain res v1 m1 where att: "exit_boot_services_attempt BS h v m = (res, v1, m1)"
    by (cases "exit_boot_services_attempt BS h v m") auto
  show ?case
  proof (cases res)
    case None
    with att lt Suc.prems have rest:
      "exit_boot_services_loop BS h (Retry + 1) v1 m1 = (st, m')"
      by (simp add: ebs_loop_continue)
    from Suc.IH [OF k rest] obtain evs where
      ih: "trace m' = trace m1 @ evs" "ebs_run h k evs st"
      by blast
    from ebs_attempt_shape [OF att] None ih show ?thesis
      by (elim exE disjE conjE)
        (simp_all, (blast intro: ebs_fetch_failed ebs_refused)+)
  next
    case (Some s)
    with att lt Suc.prems have fin: "s = st" "m1 = m'"
      by (simp_all add: ebs_loop_return)
    from ebs_attempt_shape [OF att] Some fin show ?thesis
      by (elim exE disjE conjE)
        (simp_all, (blast intro: ebs_probe_anomaly ebs_alloc_failed ebs_exited)+)
  qed
qed

lemma exit_boot_services_run:
  assumes "exit_boot_services gST h m = (st, m')"
  shows "trace m' = trace m @ calls_made m m'
    \<and> ((calls_made m m' = [] \<and> EFI_ERROR st \<and> \<not> (h \<noteq> NULL \<and> ready gST))
       \<or> (h \<noteq> NULL \<and> ready gST \<and> ebs_run h 8 (calls_made m m') st))"
proof (cases "h \<noteq> NULL \<and> ready gST")
  case False
  with assms have "st = EFI_INVALID_PARAMETER \<or> st = EFI_NOT_READY" "m' = m"
    by (auto simp: exit_boot_services_def ready_def split: option.splits if_splits)
  with False show ?thesis
    by auto
next
  case True
  then obtain ST BS where "gST = Some ST" "BootServices ST = Some BS"
    by (auto simp: ready_def split: option.splits)
  with True assms obtain v0 where "exit_boot_services_loop BS h 0 v0 m = (st, m')"
    by (auto simp: exit_boot_services_def)
  from ebs_loop_run [OF _ this, of 8] obtain evs where
    "trace m' = trace m @ evs" "ebs_run h 8 evs st"
    by auto
  with True show ?thesis
    by (auto simp: calls_made_append)
qed

section \<open>Properties of the shapes\<close>

text \<open>What \<open>each_call\<close> says, without the recursion.\<close>

lemma each_call_iff:
  "each_call P earlier evs
    \<longleftrightarrow> (\<forall>pre e post. evs = pre @ e # post \<longrightarrow> P (rev pre @ earlier) e post)"
proof (induction evs arbitrary: earlier)
  case Nil
  then show ?case
    by simp
next
  case (Cons x xs)
  show ?case
  proof
    assume l: "each_call P earlier (x # xs)"
    show "\<forall>pre e post. x # xs = pre @ e # post \<longrightarrow> P (rev pre @ earlier) e post"
    proof (intro allI impI)
      fix pre e post
      assume eq: "x # xs = pre @ e # post"
      show "P (rev pre @ earlier) e post"
      proof (cases pre)
        case Nil
        with eq l show ?thesis
          by simp
      next
        case (Cons y ys)
        with eq have "xs = ys @ e # post" "y = x"
          by simp_all
        moreover from l have "each_call P (x # earlier) xs"
          by simp
        ultimately have "P (rev ys @ x # earlier) e post"
          using Cons.IH [of "x # earlier"] by blast
        with Cons \<open>y = x\<close> show ?thesis
          by simp
      qed
    qed
  next
    assume r: "\<forall>pre e post. x # xs = pre @ e # post \<longrightarrow> P (rev pre @ earlier) e post"
    then have "P earlier x xs"
      by (metis append_Nil rev.simps(1))
    moreover have "each_call P (x # earlier) xs"
    proof -
      have "\<forall>pre e post. xs = pre @ e # post \<longrightarrow> P (rev pre @ x # earlier) e post"
      proof (intro allI impI)
        fix pre e post
        assume "xs = pre @ e # post"
        then have "x # xs = (x # pre) @ e # post"
          by simp
        with r have "P (rev (x # pre) @ earlier) e post"
          by blast
        then show "P (rev pre @ x # earlier) e post"
          by simp
      qed
      then show ?thesis
        using Cons.IH [of "x # earlier"] by blast
    qed
    ultimately show "each_call P earlier (x # xs)"
      by simp
  qed
qed

lemma ebs_run_all_refused:
  "ebs_run h n evs st
   \<Longrightarrow> \<forall>e\<in>set evs. probe_refused e \<and> allocation_granted e \<and> handshake_refused e
   \<Longrightarrow> st = EFI_ABORTED \<and> length (filter is_probe evs) = n
      \<and> length (filter is_handshake evs) = length (filter fetch_succeeded evs)
      \<and> length evs = 4 * n + length (filter is_handshake evs)"
  by (induction rule: ebs_run.induct) auto

lemma gmm_run_slack: "gmm_run n evs st w \<Longrightarrow> each_call (slack_at 16) earlier evs"
  by (induction arbitrary: earlier rule: gmm_run.induct) (simp_all add: slack_at_def)

lemma ebs_run_slack: "ebs_run h n evs st \<Longrightarrow> each_call (slack_at 8) earlier evs"
  by (induction arbitrary: earlier rule: ebs_run.induct) (simp_all add: slack_at_def)

lemma gmm_run_alignment:
  "gmm_run n evs st w \<Longrightarrow> written p v w v'
   \<Longrightarrow> each_call (alignment_checked st (ptr_at v' (pMemoryMap p))) earlier evs"
  by (induction arbitrary: earlier rule: gmm_run.induct)
    (simp_all add: alignment_checked_def written_def)

lemma ebs_run_handshake_follows:
  "ebs_run h n evs st \<Longrightarrow> each_call (handshake_follows h) earlier evs"
  by (induction arbitrary: earlier rule: ebs_run.induct) (simp_all add: handshake_follows_def)

lemma ebs_run_fresh: "ebs_run h n evs st \<Longrightarrow> each_call (fresh_at h) earlier evs"
  by (induction arbitrary: earlier rule: ebs_run.induct) (simp_all add: fresh_at_def)

lemma gmm_run_exhaustion:
  "gmm_run n evs st w
   \<Longrightarrow> length (filter fetch_failed evs) \<le> n
      \<and> (length (filter fetch_failed evs) = n
         \<longrightarrow> st = EFI_DEVICE_ERROR \<and> length (filter allocated evs) = n
            \<and> length (filter released evs) = n \<and> outstanding [] evs = []
            \<and> length evs = 4 * n)"
  by (induction rule: gmm_run.induct) auto

lemma gmm_run_misaligned:
  "gmm_run n evs st w \<Longrightarrow> \<exists>e\<in>set evs. fetch_misaligned e \<Longrightarrow> st = EFI_DEVICE_ERROR"
  by (induction rule: gmm_run.induct) auto

lemma gmm_run_buffers:
  "gmm_run n evs st w \<Longrightarrow> \<exists>e\<in>set evs. fetch_aligned e
   \<Longrightarrow> length (filter fetch_failed evs) < n \<and> st = EFI_SUCCESS
      \<and> length (filter allocated evs) = length (filter fetch_failed evs) + 1
      \<and> length (filter released evs) = length (filter fetch_failed evs)
      \<and> (\<exists>p s. w = Some (p, s) \<and> outstanding [] evs = [p])"
  by (induction rule: gmm_run.induct) auto

lemma outstanding_append:
  "outstanding held (xs @ ys) = outstanding (outstanding held xs) ys"
  by (induction held xs rule: outstanding.induct) simp_all

lemma gmm_run_alone:
  "gmm_run n evs st w \<Longrightarrow> outstanding [] (rev earlier) = []
   \<Longrightarrow> each_call alone_at earlier evs"
  by (induction arbitrary: earlier rule: gmm_run.induct)
    (simp_all add: alone_at_def outstanding_append)

lemma ebs_run_alone:
  "ebs_run h n evs st \<Longrightarrow> outstanding [] (rev earlier) = []
   \<Longrightarrow> each_call alone_at earlier evs"
  by (induction arbitrary: earlier rule: ebs_run.induct)
    (simp_all add: alone_at_def outstanding_append)

lemma gmm_run_frame: "gmm_run n evs st w \<Longrightarrow> st \<noteq> EFI_SUCCESS \<Longrightarrow> w = None"
  by (induction rule: gmm_run.induct) auto

lemma gmm_run_success:
  "gmm_run n evs st w \<Longrightarrow> st = EFI_SUCCESS \<Longrightarrow> \<forall>e\<in>set evs. probe_refused e
   \<Longrightarrow> \<exists>pre r1 a p r3.
        evs = pre @ [EvGetMemoryMap Probe 0 NULL r1,
                     EvAllocatePool (gmm_size r1 + gmm_dsize r1 * 16) a p,
                     EvGetMemoryMap Fetch (gmm_size r1 + gmm_dsize r1 * 16) p r3]
        \<and> gmm_status r1 = EFI_BUFFER_TOO_SMALL \<and> \<not> EFI_ERROR (gmm_status r3)
        \<and> w = Some (p, gmm_size r3)"
proof (induction rule: gmm_run.induct)
  case (gmm_fetch_failed r1 a r3 n evs s w p)
  then obtain pre r1' a' p' r3' where
    "evs = pre @ [EvGetMemoryMap Probe 0 NULL r1',
                  EvAllocatePool (gmm_size r1' + gmm_dsize r1' * 16) a' p',
                  EvGetMemoryMap Fetch (gmm_size r1' + gmm_dsize r1' * 16) p' r3']"
    "gmm_status r1' = EFI_BUFFER_TOO_SMALL" "\<not> EFI_ERROR (gmm_status r3')"
    "w = Some (p', gmm_size r3')"
    by auto
  then have "EvGetMemoryMap Probe 0 NULL r1
           # EvAllocatePool (gmm_size r1 + gmm_dsize r1 * 16) a p
           # EvGetMemoryMap Fetch (gmm_size r1 + gmm_dsize r1 * 16) p r3
           # EvFreePool p # evs
      = (EvGetMemoryMap Probe 0 NULL r1
           # EvAllocatePool (gmm_size r1 + gmm_dsize r1 * 16) a p
           # EvGetMemoryMap Fetch (gmm_size r1 + gmm_dsize r1 * 16) p r3
           # EvFreePool p # pre)
        @ [EvGetMemoryMap Probe 0 NULL r1',
           EvAllocatePool (gmm_size r1' + gmm_dsize r1' * 16) a' p',
           EvGetMemoryMap Fetch (gmm_size r1' + gmm_dsize r1' * 16) p' r3']"
    by simp
  with \<open>gmm_status r1' = EFI_BUFFER_TOO_SMALL\<close> \<open>\<not> EFI_ERROR (gmm_status r3')\<close>
    \<open>w = Some (p', gmm_size r3')\<close>
  show ?case
    by blast
next
  case (gmm_success r1 a r3 p n)
  then show ?case
    by (intro exI [of _ "[]"]) auto
qed auto

text \<open>What both functions do with a probe that does not report buffer-too-small,
  whatever the firmware: they return the probe's status, having made that call only.\<close>

lemma get_memory_map_returns_probe_status:
  assumes "params_valid p" and "gST = Some ST" and "BootServices ST = Some BS"
    and "GetMemoryMap BS 0 NULL (uintn_at v (pMapKey p)) (uintn_at v (pDescriptorSize p))
           (uint32_at v (pDescriptorVersion p)) (fw m) = (r, f')"
    and "gmm_status r \<noteq> EFI_BUFFER_TOO_SMALL"
  shows "get_memory_map gST p v m
    = (gmm_status r,
       v\<lparr>uintn_at := (uintn_at v)(pMapKey p := gmm_key r, pDescriptorSize p := gmm_dsize r),
         uint32_at := (uint32_at v)(pDescriptorVersion p := gmm_dver r)\<rparr>,
       m\<lparr>fw := f', trace := trace m @ [EvGetMemoryMap Probe 0 NULL r]\<rparr>)"
  using assms
  by (simp add: get_memory_map_def params_valid_def get_memory_map_loop.simps
      MEMORY_MAP_MAX_RETRIES_def get_memory_map_attempt_def call_GetMemoryMap_through_def)

lemma exit_boot_services_returns_probe_status:
  assumes "ImageHandle \<noteq> NULL" and "gST = Some ST" and "BootServices ST = Some BS"
    and "GetMemoryMap BS 0 NULL 0 0 0 (fw m) = (r, f')"
    and "gmm_status r \<noteq> EFI_BUFFER_TOO_SMALL"
  shows "exit_boot_services gST ImageHandle m
    = (gmm_status r, m\<lparr>fw := f', trace := trace m @ [EvGetMemoryMap Probe 0 NULL r]\<rparr>)"
  using assms
  by (simp add: exit_boot_services_def exit_boot_services_loop.simps
      EXIT_BOOT_SERVICES_MAX_RETRIES_def exit_boot_services_attempt_def call_GetMemoryMap_def)

section \<open>The claims\<close>

text \<open>
  C1, as amended. Take an execution of \<open>exit_boot_services\<close> with a non-null image
  handle and a ready environment in which every probe reports buffer-too-small, every
  allocation is granted and no \<open>ExitBootServices\<close> handshake succeeds. It returns
  \<open>EFI_ABORTED\<close> after exactly 8 rounds: 8 probes, one handshake for each fetch that
  succeeded, and no firmware call beyond the four or five of each round, whatever the
  firmware would have answered to a ninth handshake.
\<close>

theorem exit_boot_services_gives_up_after_8:
  assumes "ImageHandle \<noteq> NULL" and "ready gST"
    and "exit_boot_services gST ImageHandle m = (Status, m')"
    and "\<forall>e\<in>set (calls_made m m').
           probe_refused e \<and> allocation_granted e \<and> handshake_refused e"
  shows "Status = EFI_ABORTED
    \<and> length (filter is_probe (calls_made m m')) = 8
    \<and> length (filter is_handshake (calls_made m m'))
        = length (filter fetch_succeeded (calls_made m m'))
    \<and> length (calls_made m m') = 32 + length (filter is_handshake (calls_made m m'))"
proof -
  from exit_boot_services_run [OF assms(3)] assms(1,2)
  have "ebs_run ImageHandle 8 (calls_made m m') Status"
    by auto
  from ebs_run_all_refused [OF this assms(4)] show ?thesis
    by simp
qed

text \<open>The firmware here would accept the ninth handshake: all eight made are refused,
  forty calls are made and the result is \<open>EFI_ABORTED\<close>.\<close>

theorem exit_boot_services_gives_up_after_8_witness:
  "(1 :: EFI_HANDLE) \<noteq> NULL \<and> ready (sim_gST (sim 0 0x100000 9))
   \<and> list_all (\<lambda>e. probe_refused e \<and> allocation_granted e \<and> handshake_refused e)
        (calls_made sim_start (snd (exit_boot_services (sim_gST (sim 0 0x100000 9)) 1 sim_start)))
   \<and> fst (exit_boot_services (sim_gST (sim 0 0x100000 9)) 1 sim_start) = EFI_ABORTED
   \<and> length (filter is_handshake
        (calls_made sim_start (snd (exit_boot_services (sim_gST (sim 0 0x100000 9)) 1 sim_start))))
       = 8
   \<and> length (calls_made sim_start (snd (exit_boot_services (sim_gST (sim 0 0x100000 9)) 1 sim_start)))
       = 40"
proof -
  let ?R = "exit_boot_services (sim_gST (sim 0 0x100000 9)) 1 sim_start"
  have h1: "(1 :: EFI_HANDLE) \<noteq> NULL"
    by (simp add: NULL_def)
  have h2: "ready (sim_gST (sim 0 0x100000 9))"
    by (simp add: ready_def sim_defs)
  have h3: "\<forall>e\<in>set (calls_made sim_start (snd ?R)).
      probe_refused e \<and> allocation_granted e \<and> handshake_refused e"
    by (simp add: run_defs call_defs sim_defs status_defs)
  have n: "length (filter is_handshake (calls_made sim_start (snd ?R))) = 8"
    by (simp add: run_defs call_defs sim_defs status_defs)
  have run: "?R = (fst ?R, snd ?R)"
    by simp
  from exit_boot_services_gives_up_after_8 [OF h1 h2 run h3] n h1 h2 h3 show ?thesis
    by (simp add: list_all_iff)
qed

text \<open>
  The claim as stated, with the handshakes alone refused, fails: a round that does not
  reach its handshake ends the function with the status of the failed step. After one
  refused handshake, the firmware whose pool is exhausted makes the function return
  \<open>EFI_OUT_OF_RESOURCES\<close> in its second round, and the firmware whose probe breaks
  makes it return \<open>EFI_DEVICE_ERROR\<close>.
\<close>

theorem handshakes_refused_counterexample:
  "(1 :: EFI_HANDLE) \<noteq> NULL \<and> ready sim_pool_runs_out \<and> ready sim_probe_breaks
   \<and> exit_boot_services sim_pool_runs_out 1 sim_start
     = (EFI_OUT_OF_RESOURCES,
        \<lparr>fw = \<lparr>fetches = 1, allocations = 1, handshakes = 1\<rparr>,
         trace =
           [EvGetMemoryMap Probe 0 NULL (GmmOut EFI_BUFFER_TOO_SMALL 4096 0 48 1),
            EvAllocatePool 4480 EFI_SUCCESS 0x100000,
            EvGetMemoryMap Fetch 4480 0x100000 (GmmOut EFI_SUCCESS 4200 0x1122 48 1),
            EvExitBootServices 1 0x1122 EFI_INVALID_PARAMETER,
            EvFreePool 0x100000,
            EvGetMemoryMap Probe 0 NULL (GmmOut EFI_BUFFER_TOO_SMALL 4096 0x1122 48 1),
            EvAllocatePool 4480 EFI_OUT_OF_RESOURCES NULL]\<rparr>)
   \<and> exit_boot_services sim_probe_breaks 1 sim_start
     = (EFI_DEVICE_ERROR,
        \<lparr>fw = \<lparr>fetches = 1, allocations = 1, handshakes = 1\<rparr>,
         trace =
           [EvGetMemoryMap Probe 0 NULL (GmmOut EFI_BUFFER_TOO_SMALL 4096 0 48 1),
            EvAllocatePool 4480 EFI_SUCCESS 0x100000,
            EvGetMemoryMap Fetch 4480 0x100000 (GmmOut EFI_SUCCESS 4200 0x1122 48 1),
            EvExitBootServices 1 0x1122 EFI_INVALID_PARAMETER,
            EvFreePool 0x100000,
            EvGetMemoryMap Probe 0 NULL (GmmOut EFI_DEVICE_ERROR 0 0x1122 48 1)]\<rparr>)
   \<and> EFI_INVALID_PARAMETER \<noteq> EFI_SUCCESS
   \<and> EFI_OUT_OF_RESOURCES \<noteq> EFI_ABORTED \<and> EFI_DEVICE_ERROR \<noteq> EFI_ABORTED"
  by (simp add: run_defs call_defs sim_defs status_defs ready_def)

text \<open>
  C2. The claim is that a probe answered with anything but buffer-too-small, success
  included, makes the function fail with an error status. The code returns the
  probe's status as it is: on a firmware whose probe reports \<open>EFI_SUCCESS\<close>,
  \<open>get_memory_map\<close> returns \<open>EFI_SUCCESS\<close> after that single call, having stored
  no map (\<open>*MemoryMap\<close> and \<open>*MemoryMapSize\<close> hold what they held), and
  \<open>exit_boot_services\<close> returns \<open>EFI_SUCCESS\<close> after that single call, without any
  handshake.
\<close>

theorem probe_success_returned_as_success:
  "fst (get_memory_map (sim_gST sim_probe_succeeds) some_params some_memory sim_start) = EFI_SUCCESS
   \<and> calls_made sim_start
        (snd (snd (get_memory_map (sim_gST sim_probe_succeeds) some_params some_memory sim_start)))
       = [EvGetMemoryMap Probe 0 NULL (GmmOut EFI_SUCCESS 4096 0 48 1)]
   \<and> ptr_at (fst (snd (get_memory_map (sim_gST sim_probe_succeeds) some_params some_memory sim_start)))
        (pMemoryMap some_params)
       = ptr_at some_memory (pMemoryMap some_params)
   \<and> uintn_at (fst (snd (get_memory_map (sim_gST sim_probe_succeeds) some_params some_memory sim_start)))
        (pMemoryMapSize some_params)
       = uintn_at some_memory (pMemoryMapSize some_params)
   \<and> fst (exit_boot_services (sim_gST sim_probe_succeeds) 1 sim_start) = EFI_SUCCESS
   \<and> calls_made sim_start (snd (exit_boot_services (sim_gST sim_probe_succeeds) 1 sim_start))
       = [EvGetMemoryMap Probe 0 NULL (GmmOut EFI_SUCCESS 4096 0 48 1)]"
  by (simp add: run_defs call_defs sim_defs status_defs)

text \<open>
  C3, as amended. After a probe that reported buffer-too-small, \<open>get_memory_map\<close>
  allocates the probed size plus 16 descriptors and \<open>exit_boot_services\<close> the probed
  size plus 8 descriptors, both computed in \<open>UINTN\<close> (modulo \<open>2^64\<close>): every
  allocation of an execution directly follows a probe and has that size.
\<close>

theorem slack_of_every_allocation:
  assumes "get_memory_map gST p v m = (Status, v', m')"
    and "exit_boot_services gST2 ImageHandle m2 = (Status2, m2')"
  shows "each_call (slack_at 16) [] (calls_made m m')
    \<and> each_call (slack_at 8) [] (calls_made m2 m2')"
proof -
  from get_memory_map_run [OF assms(1)] have "each_call (slack_at 16) [] (calls_made m m')"
    by (auto intro: gmm_run_slack)
  moreover from exit_boot_services_run [OF assms(2)]
  have "each_call (slack_at 8) [] (calls_made m2 m2')"
    by (auto intro: ebs_run_slack)
  ultimately show ?thesis
    by simp
qed

theorem slack_of_every_allocation_witness:
  "each_call (slack_at 16) []
     (calls_made sim_start
        (snd (snd (get_memory_map (sim_gST (sim 2 0x100000 1)) some_params some_memory sim_start))))
   \<and> length (filter allocated
        (calls_made sim_start
          (snd (snd (get_memory_map (sim_gST (sim 2 0x100000 1)) some_params some_memory sim_start)))))
       = 3
   \<and> each_call (slack_at 8) []
        (calls_made sim_start (snd (exit_boot_services (sim_gST (sim 1 0x100000 3)) 1 sim_start)))
   \<and> length (filter allocated
        (calls_made sim_start (snd (exit_boot_services (sim_gST (sim 1 0x100000 3)) 1 sim_start))))
       = 4"
proof -
  let ?G = "get_memory_map (sim_gST (sim 2 0x100000 1)) some_params some_memory sim_start"
  let ?E = "exit_boot_services (sim_gST (sim 1 0x100000 3)) 1 sim_start"
  have g: "?G = (fst ?G, fst (snd ?G), snd (snd ?G))"
    by simp
  have e: "?E = (fst ?E, snd ?E)"
    by simp
  have n: "length (filter allocated (calls_made sim_start (snd (snd ?G)))) = 3"
    "length (filter allocated (calls_made sim_start (snd ?E))) = 4"
    by (simp_all add: run_defs call_defs sim_defs status_defs)
  from slack_of_every_allocation [OF g e] n show ?thesis
    by simp
qed

text \<open>The claim as stated fails for \<open>exit_boot_services\<close>: on a probe reporting 4096
  bytes and descriptors of 48 bytes it allocates 4480 bytes, not 4864.\<close>

theorem slack_of_16_counterexample:
  "calls_made sim_start (snd (exit_boot_services (sim_gST (sim 0 0x100000 1)) 1 sim_start))
     = [EvGetMemoryMap Probe 0 NULL (GmmOut EFI_BUFFER_TOO_SMALL 4096 0 48 1),
        EvAllocatePool 4480 EFI_SUCCESS 0x100000,
        EvGetMemoryMap Fetch 4480 0x100000 (GmmOut EFI_SUCCESS 4200 0x1122 48 1),
        EvExitBootServices 1 0x1122 EFI_SUCCESS]
   \<and> (4096 + 48 * 16 :: UINTN) = 4864
   \<and> \<not> each_call (slack_at 16) []
        (calls_made sim_start (snd (exit_boot_services (sim_gST (sim 0 0x100000 1)) 1 sim_start)))"
  by (simp add: run_defs call_defs sim_defs status_defs slack_at_def)

text \<open>
  C4, as amended. In \<open>get_memory_map\<close> every fetch that succeeds is followed by the
  alignment check: if the address of the buffer (the one allocated just before the
  fetch) is a multiple of 8, the fetch is the last call, the function returns
  \<open>EFI_SUCCESS\<close> and stores the buffer in \<open>*MemoryMap\<close>; if not, the buffer is
  released, once, by the only call that follows, and the function returns
  \<open>EFI_DEVICE_ERROR\<close> without another round. \<open>exit_boot_services\<close> does not check
  the alignment: the call after a fetch that succeeds is the handshake with the
  fetched key.
\<close>

theorem alignment_check_after_fetch:
  assumes "get_memory_map gST p v m = (Status, v', m')"
    and "exit_boot_services gST2 ImageHandle m2 = (Status2, m2')"
  shows "each_call (alignment_checked Status (ptr_at v' (pMemoryMap p))) [] (calls_made m m')
    \<and> each_call (handshake_follows ImageHandle) [] (calls_made m2 m2')"
proof -
  from get_memory_map_run [OF assms(1)]
  have "each_call (alignment_checked Status (ptr_at v' (pMemoryMap p))) [] (calls_made m m')"
    by (auto intro: gmm_run_alignment)
  moreover from exit_boot_services_run [OF assms(2)]
  have "each_call (handshake_follows ImageHandle) [] (calls_made m2 m2')"
    by (auto intro: ebs_run_handshake_follows)
  ultimately show ?thesis
    by simp
qed

text \<open>A pool at an odd address: after one failed fetch, \<open>get_memory_map\<close> fetches
  into the misaligned buffer \<open>0x101001\<close>, releases it and returns
  \<open>EFI_DEVICE_ERROR\<close>.\<close>

theorem alignment_check_after_fetch_witness:
  "each_call
     (alignment_checked
        (fst (get_memory_map (sim_gST (sim 1 0x100001 1)) some_params some_memory sim_start))
        (ptr_at (fst (snd (get_memory_map (sim_gST (sim 1 0x100001 1)) some_params some_memory sim_start)))
           (pMemoryMap some_params)))
     []
     (calls_made sim_start
        (snd (snd (get_memory_map (sim_gST (sim 1 0x100001 1)) some_params some_memory sim_start))))
   \<and> fst (get_memory_map (sim_gST (sim 1 0x100001 1)) some_params some_memory sim_start)
       = EFI_DEVICE_ERROR
   \<and> drop 6 (calls_made sim_start
        (snd (snd (get_memory_map (sim_gST (sim 1 0x100001 1)) some_params some_memory sim_start))))
       = [EvGetMemoryMap Fetch 4864 0x101001 (GmmOut EFI_SUCCESS 4200 0x1123 48 1),
          EvFreePool 0x101001]
   \<and> each_call (handshake_follows 1) []
        (calls_made sim_start (snd (exit_boot_services (sim_gST (sim 0 0x100001 1)) 1 sim_start)))"
proof -
  let ?G = "get_memory_map (sim_gST (sim 1 0x100001 1)) some_params some_memory sim_start"
  let ?E = "exit_boot_services (sim_gST (sim 0 0x100001 1)) 1 sim_start"
  have g: "?G = (fst ?G, fst (snd ?G), snd (snd ?G))"
    by simp
  have e: "?E = (fst ?E, snd ?E)"
    by simp
  have n: "fst ?G = EFI_DEVICE_ERROR"
    "drop 6 (calls_made sim_start (snd (snd ?G)))
       = [EvGetMemoryMap Fetch 4864 0x101001 (GmmOut EFI_SUCCESS 4200 0x1123 48 1),
          EvFreePool 0x101001]"
    by (simp_all add: run_defs call_defs sim_defs status_defs)
  from alignment_check_after_fetch [OF g e] n show ?thesis
    by simp
qed

text \<open>The claim as stated fails for \<open>exit_boot_services\<close>: with the buffer at the odd
  address \<open>0x100001\<close> it goes on to the handshake and returns \<open>EFI_SUCCESS\<close>; the
  buffer is not released and no error is reported.\<close>

theorem exit_boot_services_alignment_counterexample:
  "(0x100001 :: pointer) mod 8 = 1
   \<and> exit_boot_services (sim_gST (sim 0 0x100001 1)) 1 sim_start
     = (EFI_SUCCESS,
        \<lparr>fw = \<lparr>fetches = 1, allocations = 1, handshakes = 1\<rparr>,
         trace =
           [EvGetMemoryMap Probe 0 NULL (GmmOut EFI_BUFFER_TOO_SMALL 4096 0 48 1),
            EvAllocatePool 4480 EFI_SUCCESS 0x100001,
            EvGetMemoryMap Fetch 4480 0x100001 (GmmOut EFI_SUCCESS 4200 0x1122 48 1),
            EvExitBootServices 1 0x1122 EFI_SUCCESS]\<rparr>)"
  by (simp add: run_defs call_defs sim_defs status_defs)

text \<open>
  C5, as amended. An execution of \<open>get_memory_map\<close> in which all 8 rounds fail on
  the fetch returns \<open>EFI_DEVICE_ERROR\<close>, and so does an execution that ends on a
  misaligned buffer: exhaustion has the status of the integrity failure, not one of
  its own.
\<close>

theorem exhaustion_is_device_error:
  assumes "get_memory_map gST p v m = (Status, v', m')"
    and "length (filter fetch_failed (calls_made m m')) = 8"
    and "get_memory_map gST2 p2 v2 m2 = (Status2, v2', m2')"
    and "\<exists>e\<in>set (calls_made m2 m2'). fetch_misaligned e"
  shows "Status = EFI_DEVICE_ERROR \<and> Status2 = EFI_DEVICE_ERROR"
proof -
  from get_memory_map_run [OF assms(1)] assms(2)
  obtain w where "gmm_run 8 (calls_made m m') Status w"
    by auto
  from gmm_run_exhaustion [OF this] assms(2) have "Status = EFI_DEVICE_ERROR"
    by simp
  moreover from get_memory_map_run [OF assms(3)] assms(4)
  obtain w2 where "gmm_run 8 (calls_made m2 m2') Status2 w2"
    by auto
  from gmm_run_misaligned [OF this assms(4)] have "Status2 = EFI_DEVICE_ERROR" .
  ultimately show ?thesis
    by simp
qed

theorem exhaustion_is_device_error_witness:
  "length (filter fetch_failed
      (calls_made sim_start
        (snd (snd (get_memory_map (sim_gST (sim 8 0x100000 1)) some_params some_memory sim_start)))))
     = 8
   \<and> list_ex fetch_misaligned
        (calls_made sim_start
          (snd (snd (get_memory_map (sim_gST (sim 0 0x100001 1)) some_params some_memory sim_start))))
   \<and> fst (get_memory_map (sim_gST (sim 8 0x100000 1)) some_params some_memory sim_start)
       = EFI_DEVICE_ERROR
   \<and> fst (get_memory_map (sim_gST (sim 0 0x100001 1)) some_params some_memory sim_start)
       = EFI_DEVICE_ERROR"
proof -
  let ?X = "get_memory_map (sim_gST (sim 8 0x100000 1)) some_params some_memory sim_start"
  let ?M = "get_memory_map (sim_gST (sim 0 0x100001 1)) some_params some_memory sim_start"
  have x: "?X = (fst ?X, fst (snd ?X), snd (snd ?X))"
    by simp
  have m: "?M = (fst ?M, fst (snd ?M), snd (snd ?M))"
    by simp
  have h1: "length (filter fetch_failed (calls_made sim_start (snd (snd ?X)))) = 8"
    by (simp add: run_defs call_defs sim_defs status_defs)
  have h2: "\<exists>e\<in>set (calls_made sim_start (snd (snd ?M))). fetch_misaligned e"
    by (simp add: run_defs call_defs sim_defs status_defs)
  from exhaustion_is_device_error [OF x h1 m h2] h1 h2 show ?thesis
    by (simp add: list_ex_iff)
qed

text \<open>The claim as stated fails: the run that exhausts its 8 rounds and the run that
  ends on a misaligned buffer return the same status.\<close>

theorem exhaustion_status_counterexample:
  "length (filter fetch_failed
      (calls_made sim_start
        (snd (snd (get_memory_map (sim_gST (sim 8 0x100000 1)) some_params some_memory sim_start)))))
     = 8
   \<and> last (calls_made sim_start
        (snd (snd (get_memory_map (sim_gST (sim 0 0x100001 1)) some_params some_memory sim_start))))
       = EvFreePool 0x100001
   \<and> (0x100001 :: pointer) mod 8 = 1
   \<and> fst (get_memory_map (sim_gST (sim 8 0x100000 1)) some_params some_memory sim_start)
       = fst (get_memory_map (sim_gST (sim 0 0x100001 1)) some_params some_memory sim_start)"
  by (simp add: run_defs call_defs sim_defs status_defs)

text \<open>
  C6, as amended. When \<open>get_memory_map\<close> returns success and its probes reported
  buffer-too-small, the size stored in \<open>*MemoryMapSize\<close> is the size the firmware
  reported in the fetch of the last round; that fetch was made into a buffer of
  probedSize + descriptorSize \<times> 16 bytes (in \<open>UINTN\<close>), the values of the last
  round's probe. The stored size is the firmware's, whatever it is.
\<close>

theorem returned_size_is_fetched_size:
  assumes "get_memory_map gST p v m = (Status, v', m')"
    and "Status = EFI_SUCCESS"
    and "\<forall>e\<in>set (calls_made m m'). probe_refused e"
  shows "\<exists>pre r1 a buf r3.
      calls_made m m'
        = pre @ [EvGetMemoryMap Probe 0 NULL r1,
                 EvAllocatePool (gmm_size r1 + gmm_dsize r1 * 16) a buf,
                 EvGetMemoryMap Fetch (gmm_size r1 + gmm_dsize r1 * 16) buf r3]
      \<and> gmm_status r1 = EFI_BUFFER_TOO_SMALL \<and> \<not> EFI_ERROR (gmm_status r3)
      \<and> uintn_at v' (pMemoryMapSize p) = gmm_size r3 \<and> ptr_at v' (pMemoryMap p) = buf"
proof -
  from get_memory_map_run [OF assms(1)] assms(2)
  obtain w where run: "gmm_run 8 (calls_made m m') Status w" and w: "written p v w v'"
    by auto
  from gmm_run_success [OF run assms(2,3)] obtain pre r1 a buf r3 where
    "calls_made m m'
        = pre @ [EvGetMemoryMap Probe 0 NULL r1,
                 EvAllocatePool (gmm_size r1 + gmm_dsize r1 * 16) a buf,
                 EvGetMemoryMap Fetch (gmm_size r1 + gmm_dsize r1 * 16) buf r3]"
    "gmm_status r1 = EFI_BUFFER_TOO_SMALL" "\<not> EFI_ERROR (gmm_status r3)"
    "w = Some (buf, gmm_size r3)"
    by blast
  with w show ?thesis
    by (auto simp: written_def)
qed

theorem returned_size_is_fetched_size_witness:
  "fst (get_memory_map (sim_gST (sim 2 0x100000 1)) some_params some_memory sim_start) = EFI_SUCCESS
   \<and> list_all probe_refused
        (calls_made sim_start
          (snd (snd (get_memory_map (sim_gST (sim 2 0x100000 1)) some_params some_memory sim_start))))
   \<and> (\<exists>pre r1 a buf r3.
        calls_made sim_start
          (snd (snd (get_memory_map (sim_gST (sim 2 0x100000 1)) some_params some_memory sim_start)))
          = pre @ [EvGetMemoryMap Probe 0 NULL r1,
                   EvAllocatePool (gmm_size r1 + gmm_dsize r1 * 16) a buf,
                   EvGetMemoryMap Fetch (gmm_size r1 + gmm_dsize r1 * 16) buf r3]
        \<and> gmm_status r1 = EFI_BUFFER_TOO_SMALL \<and> \<not> EFI_ERROR (gmm_status r3)
        \<and> uintn_at
            (fst (snd (get_memory_map (sim_gST (sim 2 0x100000 1)) some_params some_memory sim_start)))
            (pMemoryMapSize some_params)
          = gmm_size r3
        \<and> ptr_at
            (fst (snd (get_memory_map (sim_gST (sim 2 0x100000 1)) some_params some_memory sim_start)))
            (pMemoryMap some_params)
          = buf)
   \<and> uintn_at
        (fst (snd (get_memory_map (sim_gST (sim 2 0x100000 1)) some_params some_memory sim_start)))
        (pMemoryMapSize some_params)
       = 4200"
proof -
  let ?G = "get_memory_map (sim_gST (sim 2 0x100000 1)) some_params some_memory sim_start"
  have g: "?G = (fst ?G, fst (snd ?G), snd (snd ?G))"
    by simp
  have h1: "fst ?G = EFI_SUCCESS"
    by (simp add: run_defs call_defs sim_defs status_defs)
  have h2: "\<forall>e\<in>set (calls_made sim_start (snd (snd ?G))). probe_refused e"
    by (simp add: run_defs call_defs sim_defs status_defs)
  have n: "uintn_at (fst (snd ?G)) (pMemoryMapSize some_params) = 4200"
    by (simp add: run_defs call_defs sim_defs status_defs)
  from returned_size_is_fetched_size [OF g h1 h2] h1 h2 n show ?thesis
    by (simp add: list_all_iff)
qed

text \<open>The claim as stated fails on the spec's own example: the probe reports 4096
  bytes and descriptors of 48 bytes, the buffer has 4864 bytes, the fetch reports 4200
  bytes, and 4200 is what \<open>*MemoryMapSize\<close> holds on success.\<close>

theorem returned_size_counterexample:
  "fst (get_memory_map (sim_gST (sim 0 0x100000 1)) some_params some_memory sim_start)
     = EFI_SUCCESS
   \<and> snd (snd (get_memory_map (sim_gST (sim 0 0x100000 1)) some_params some_memory sim_start))
     = \<lparr>fw = \<lparr>fetches = 1, allocations = 1, handshakes = 0\<rparr>,
        trace =
          [EvGetMemoryMap Probe 0 NULL (GmmOut EFI_BUFFER_TOO_SMALL 4096 0 48 1),
           EvAllocatePool 4864 EFI_SUCCESS 0x100000,
           EvGetMemoryMap Fetch 4864 0x100000 (GmmOut EFI_SUCCESS 4200 0x1122 48 1)]\<rparr>
   \<and> ptr_at (fst (snd (get_memory_map (sim_gST (sim 0 0x100000 1)) some_params some_memory sim_start)))
        (pMemoryMap some_params)
       = 0x100000
   \<and> uintn_at (fst (snd (get_memory_map (sim_gST (sim 0 0x100000 1)) some_params some_memory sim_start)))
        (pMemoryMapSize some_params)
       = 4200
   \<and> uintn_at (fst (snd (get_memory_map (sim_gST (sim 0 0x100000 1)) some_params some_memory sim_start)))
        (pMapKey some_params)
       = 0x1122
   \<and> uintn_at (fst (snd (get_memory_map (sim_gST (sim 0 0x100000 1)) some_params some_memory sim_start)))
        (pDescriptorSize some_params)
       = 48
   \<and> uint32_at (fst (snd (get_memory_map (sim_gST (sim 0 0x100000 1)) some_params some_memory sim_start)))
        (pDescriptorVersion some_params)
       = 1
   \<and> (4200 :: UINTN) < 4096 + 16 * 48"
  by (simp add: run_defs call_defs sim_defs status_defs)

text \<open>
  C7. In an execution of \<open>get_memory_map\<close> with \<open>N\<close> failed fetches followed by a
  fetch that succeeds into an aligned buffer, \<open>N < 8\<close>, the function returns success,
  \<open>N + 1\<close> buffers have been allocated (one \<open>AllocatePool\<close> call each) and \<open>N\<close>
  released, and one buffer is outstanding, the one returned in \<open>*MemoryMap\<close>. In an
  execution with 8 failed fetches the function returns \<open>EFI_DEVICE_ERROR\<close>, 8
  buffers have been allocated and 8 released, none is outstanding, and the 32 calls
  of the 8 rounds are all the calls made. The buffers are distinct allocations: each
  is allocated when no other is outstanding (the pool is free to hand out an address
  again once it has been released).
\<close>

theorem buffers_allocated_and_released:
  assumes "get_memory_map gST p v m = (Status, v', m')"
    and "\<exists>e\<in>set (calls_made m m'). fetch_aligned e"
    and "length (filter fetch_failed (calls_made m m')) = N"
    and "get_memory_map gST2 p2 v2 m2 = (Status2, v2', m2')"
    and "length (filter fetch_failed (calls_made m2 m2')) = 8"
  shows "N < 8 \<and> Status = EFI_SUCCESS
    \<and> length (filter allocated (calls_made m m')) = N + 1
    \<and> length (filter released (calls_made m m')) = N
    \<and> outstanding [] (calls_made m m') = [ptr_at v' (pMemoryMap p)]
    \<and> each_call alone_at [] (calls_made m m')
    \<and> Status2 = EFI_DEVICE_ERROR
    \<and> length (filter allocated (calls_made m2 m2')) = 8
    \<and> length (filter released (calls_made m2 m2')) = 8
    \<and> outstanding [] (calls_made m2 m2') = []
    \<and> length (calls_made m2 m2') = 32
    \<and> each_call alone_at [] (calls_made m2 m2')"
proof -
  from get_memory_map_run [OF assms(1)] assms(2)
  obtain w where run: "gmm_run 8 (calls_made m m') Status w" and w: "written p v w v'"
    by auto
  from gmm_run_buffers [OF run assms(2)] assms(3) w
  have a: "N < 8 \<and> Status = EFI_SUCCESS
    \<and> length (filter allocated (calls_made m m')) = N + 1
    \<and> length (filter released (calls_made m m')) = N
    \<and> outstanding [] (calls_made m m') = [ptr_at v' (pMemoryMap p)]"
    by (auto simp: written_def)
  from gmm_run_alone [OF run] have a': "each_call alone_at [] (calls_made m m')"
    by simp
  from get_memory_map_run [OF assms(4)] assms(5)
  obtain w2 where run2: "gmm_run 8 (calls_made m2 m2') Status2 w2"
    by auto
  from gmm_run_exhaustion [OF run2] assms(5)
  have b: "Status2 = EFI_DEVICE_ERROR
    \<and> length (filter allocated (calls_made m2 m2')) = 8
    \<and> length (filter released (calls_made m2 m2')) = 8
    \<and> outstanding [] (calls_made m2 m2') = []
    \<and> length (calls_made m2 m2') = 32"
    by simp
  from gmm_run_alone [OF run2] have "each_call alone_at [] (calls_made m2 m2')"
    by simp
  with a a' b show ?thesis
    by simp
qed

theorem buffers_allocated_and_released_witness:
  "list_ex fetch_aligned
     (calls_made sim_start
        (snd (snd (get_memory_map (sim_gST (sim 2 0x100000 1)) some_params some_memory sim_start))))
   \<and> length (filter fetch_failed
        (calls_made sim_start
          (snd (snd (get_memory_map (sim_gST (sim 2 0x100000 1)) some_params some_memory sim_start)))))
       = 2
   \<and> length (filter fetch_failed
        (calls_made sim_start
          (snd (snd (get_memory_map (sim_gST (sim 8 0x100000 1)) some_params some_memory sim_start)))))
       = 8
   \<and> length (filter allocated
        (calls_made sim_start
          (snd (snd (get_memory_map (sim_gST (sim 2 0x100000 1)) some_params some_memory sim_start)))))
       = 3
   \<and> length (filter released
        (calls_made sim_start
          (snd (snd (get_memory_map (sim_gST (sim 2 0x100000 1)) some_params some_memory sim_start)))))
       = 2
   \<and> outstanding []
        (calls_made sim_start
          (snd (snd (get_memory_map (sim_gST (sim 2 0x100000 1)) some_params some_memory sim_start))))
       = [0x102000]
   \<and> ptr_at (fst (snd (get_memory_map (sim_gST (sim 2 0x100000 1)) some_params some_memory sim_start)))
        (pMemoryMap some_params)
       = 0x102000
   \<and> fst (get_memory_map (sim_gST (sim 8 0x100000 1)) some_params some_memory sim_start)
       = EFI_DEVICE_ERROR
   \<and> outstanding []
        (calls_made sim_start
          (snd (snd (get_memory_map (sim_gST (sim 8 0x100000 1)) some_params some_memory sim_start))))
       = []"
proof -
  let ?G = "get_memory_map (sim_gST (sim 2 0x100000 1)) some_params some_memory sim_start"
  let ?X = "get_memory_map (sim_gST (sim 8 0x100000 1)) some_params some_memory sim_start"
  have g: "?G = (fst ?G, fst (snd ?G), snd (snd ?G))"
    by simp
  have x: "?X = (fst ?X, fst (snd ?X), snd (snd ?X))"
    by simp
  have h1: "\<exists>e\<in>set (calls_made sim_start (snd (snd ?G))). fetch_aligned e"
    by (simp add: run_defs call_defs sim_defs status_defs)
  have h2: "length (filter fetch_failed (calls_made sim_start (snd (snd ?G)))) = 2"
    by (simp add: run_defs call_defs sim_defs status_defs)
  have h3: "length (filter fetch_failed (calls_made sim_start (snd (snd ?X)))) = 8"
    by (simp add: run_defs call_defs sim_defs status_defs)
  have n: "ptr_at (fst (snd ?G)) (pMemoryMap some_params) = 0x102000"
    by (simp add: run_defs call_defs sim_defs status_defs)
  from buffers_allocated_and_released [OF g h1 h2 x h3] h1 h2 h3 n show ?thesis
    by (simp add: list_ex_iff)
qed

text \<open>
  C8. \<open>exit_boot_services\<close> called with a null image handle returns
  \<open>EFI_INVALID_PARAMETER\<close>, and with an environment that is not ready (\<open>gST\<close> or
  \<open>gST->BootServices\<close> null) both functions return at once, \<open>EFI_NOT_READY\<close> when
  their arguments are valid and \<open>EFI_INVALID_PARAMETER\<close> when not. In each case the
  machine is returned as it was: no firmware call has been made, and the
  caller's memory is untouched.
\<close>

theorem invalid_or_unready_fails_without_calls:
  "exit_boot_services gST NULL m = (EFI_INVALID_PARAMETER, m)
   \<and> (\<not> ready gST \<longrightarrow>
        exit_boot_services gST ImageHandle m
          = (if ImageHandle = NULL then EFI_INVALID_PARAMETER else EFI_NOT_READY, m)
        \<and> get_memory_map gST p v m
          = (if params_valid p then EFI_NOT_READY else EFI_INVALID_PARAMETER, v, m))"
  by (auto simp: exit_boot_services_def get_memory_map_def ready_def params_valid_def
      split: option.splits)

theorem invalid_or_unready_fails_without_calls_witness:
  "exit_boot_services (sim_gST (sim 0 0x100000 1)) NULL sim_start
     = (EFI_INVALID_PARAMETER, sim_start)
   \<and> \<not> ready (Some \<lparr>BootServices = (None :: sim_state EFI_BOOT_SERVICES option)\<rparr>)
   \<and> exit_boot_services (Some \<lparr>BootServices = (None :: sim_state EFI_BOOT_SERVICES option)\<rparr>)
        1 sim_start
       = (EFI_NOT_READY, sim_start)
   \<and> get_memory_map (Some \<lparr>BootServices = (None :: sim_state EFI_BOOT_SERVICES option)\<rparr>)
        some_params some_memory sim_start
       = (EFI_NOT_READY, some_memory, sim_start)
   \<and> \<not> ready (None :: sim_state EFI_SYSTEM_TABLE option)
   \<and> exit_boot_services (None :: sim_state EFI_SYSTEM_TABLE option) 1 sim_start
       = (EFI_NOT_READY, sim_start)
   \<and> get_memory_map (None :: sim_state EFI_SYSTEM_TABLE option) some_params some_memory sim_start
       = (EFI_NOT_READY, some_memory, sim_start)
   \<and> calls_made sim_start sim_start = []"
proof -
  let ?U = "Some \<lparr>BootServices = (None :: sim_state EFI_BOOT_SERVICES option)\<rparr>"
  let ?N = "None :: sim_state EFI_SYSTEM_TABLE option"
  have u: "\<not> ready ?U" "\<not> ready ?N"
    by (simp_all add: ready_def)
  have v: "params_valid some_params" "(1 :: EFI_HANDLE) \<noteq> NULL"
    by (simp_all add: params_valid_def some_params_def NULL_def)
  from invalid_or_unready_fails_without_calls
         [of "sim_gST (sim 0 0x100000 1)" sim_start 1 some_params some_memory]
       invalid_or_unready_fails_without_calls [of ?U sim_start 1 some_params some_memory]
       invalid_or_unready_fails_without_calls [of ?N sim_start 1 some_params some_memory]
       u v
  show ?thesis
    by simp
qed

text \<open>
  C9. Every \<open>ExitBootServices\<close> handshake of an execution of \<open>exit_boot_services\<close>
  is made with the image handle and with the key of the call just before it, which is
  a fetch that succeeded into the buffer allocated by the call before that, which
  followed a probe: the key and the buffer are those of the handshake's own round.
  The buffer of a round is a new one: it is allocated when no earlier buffer is
  outstanding.
\<close>

theorem handshake_uses_fresh_key:
  assumes "exit_boot_services gST ImageHandle m = (Status, m')"
  shows "each_call (fresh_at ImageHandle) [] (calls_made m m')
    \<and> each_call alone_at [] (calls_made m m')"
proof -
  from exit_boot_services_run [OF assms] show ?thesis
    by (auto intro: ebs_run_fresh ebs_run_alone)
qed

text \<open>One failed fetch, two refused handshakes and a third that succeeds: three
  handshakes, each with the key of its own round.\<close>

theorem handshake_uses_fresh_key_witness:
  "each_call (fresh_at 1) []
     (calls_made sim_start (snd (exit_boot_services (sim_gST (sim 1 0x100000 3)) 1 sim_start)))
   \<and> filter is_handshake
        (calls_made sim_start (snd (exit_boot_services (sim_gST (sim 1 0x100000 3)) 1 sim_start)))
       = [EvExitBootServices 1 0x1123 EFI_INVALID_PARAMETER,
          EvExitBootServices 1 0x1124 EFI_INVALID_PARAMETER,
          EvExitBootServices 1 0x1125 EFI_SUCCESS]"
proof -
  let ?E = "exit_boot_services (sim_gST (sim 1 0x100000 3)) 1 sim_start"
  have e: "?E = (fst ?E, snd ?E)"
    by simp
  have n: "filter is_handshake (calls_made sim_start (snd ?E))
       = [EvExitBootServices 1 0x1123 EFI_INVALID_PARAMETER,
          EvExitBootServices 1 0x1124 EFI_INVALID_PARAMETER,
          EvExitBootServices 1 0x1125 EFI_SUCCESS]"
    by (simp add: run_defs call_defs sim_defs status_defs)
  from handshake_uses_fresh_key [OF e] n show ?thesis
    by simp
qed

text \<open>
  C10, as amended. When \<open>get_memory_map\<close> returns a status other than
  \<open>EFI_SUCCESS\<close>, \<open>*MemoryMap\<close> holds what it held before the call, and so does
  \<open>*MemoryMapSize\<close> when the pointer \<open>MemoryMapSize\<close> is neither the pointer
  \<open>MapKey\<close> nor the pointer \<open>DescriptorSize\<close>: the code assigns the two locations on
  the path to \<open>return EFI_SUCCESS\<close> only, and the firmware stores through \<open>MapKey\<close>,
  \<open>DescriptorSize\<close> and \<open>DescriptorVersion\<close> in every round.
\<close>

theorem outputs_unchanged_on_failure:
  assumes "get_memory_map gST p v m = (Status, v', m')"
    and "Status \<noteq> EFI_SUCCESS"
  shows "ptr_at v' (pMemoryMap p) = ptr_at v (pMemoryMap p)
    \<and> (pMemoryMapSize p \<noteq> pMapKey p \<and> pMemoryMapSize p \<noteq> pDescriptorSize p
       \<longrightarrow> uintn_at v' (pMemoryMapSize p) = uintn_at v (pMemoryMapSize p))"
proof -
  from get_memory_map_run [OF assms(1)]
  consider "v' = v" | w where "gmm_run 8 (calls_made m m') Status w" "written p v w v'"
    by auto
  then show ?thesis
  proof cases
    case 1
    then show ?thesis
      by simp
  next
    case 2
    from gmm_run_frame [OF 2(1) assms(2)] 2(2) show ?thesis
      by (simp add: written_def)
  qed
qed

theorem outputs_unchanged_on_failure_witness:
  "fst (get_memory_map (sim_gST (sim 1 0x100001 1)) some_params some_memory sim_start)
     \<noteq> EFI_SUCCESS
   \<and> pMemoryMapSize some_params \<noteq> pMapKey some_params
   \<and> pMemoryMapSize some_params \<noteq> pDescriptorSize some_params
   \<and> ptr_at (fst (snd (get_memory_map (sim_gST (sim 1 0x100001 1)) some_params some_memory sim_start)))
        (pMemoryMap some_params)
       = 0xAAAA
   \<and> uintn_at (fst (snd (get_memory_map (sim_gST (sim 1 0x100001 1)) some_params some_memory sim_start)))
        (pMemoryMapSize some_params)
       = 0xBBBB
   \<and> length (calls_made sim_start
        (snd (snd (get_memory_map (sim_gST (sim 1 0x100001 1)) some_params some_memory sim_start))))
       = 8"
proof -
  let ?G = "get_memory_map (sim_gST (sim 1 0x100001 1)) some_params some_memory sim_start"
  have g: "?G = (fst ?G, fst (snd ?G), snd (snd ?G))"
    by simp
  have h: "fst ?G \<noteq> EFI_SUCCESS"
    by (simp add: run_defs call_defs sim_defs status_defs)
  have d: "pMemoryMapSize some_params \<noteq> pMapKey some_params"
    "pMemoryMapSize some_params \<noteq> pDescriptorSize some_params"
    by (simp_all add: some_params_def)
  have n: "length (calls_made sim_start (snd (snd ?G))) = 8"
    by (simp add: run_defs call_defs sim_defs status_defs)
  have i: "ptr_at some_memory (pMemoryMap some_params) = 0xAAAA"
    "uintn_at some_memory (pMemoryMapSize some_params) = 0xBBBB"
    by (simp_all add: some_memory_def some_params_def)
  from outputs_unchanged_on_failure [OF g h] h d n i show ?thesis
    by simp
qed

text \<open>The claim as stated fails when the caller passes one pointer twice: with
  \<open>MemoryMapSize\<close> and \<open>DescriptorSize\<close> the same pointer, the location holds
  \<open>0xBBBB\<close> before the call and the descriptor size 48 after it, on a return of
  \<open>EFI_DEVICE_ERROR\<close>.\<close>

theorem outputs_unchanged_counterexample:
  "params_valid aliased_params
   \<and> pMemoryMapSize aliased_params = pDescriptorSize aliased_params
   \<and> uintn_at some_memory (pMemoryMapSize aliased_params) = 0xBBBB
   \<and> fst (get_memory_map (sim_gST (sim 1 0x100001 1)) aliased_params some_memory sim_start)
       = EFI_DEVICE_ERROR
   \<and> EFI_DEVICE_ERROR \<noteq> EFI_SUCCESS
   \<and> uintn_at (fst (snd (get_memory_map (sim_gST (sim 1 0x100001 1)) aliased_params some_memory sim_start)))
        (pMemoryMapSize aliased_params)
       = 48"
  by (simp add: run_defs call_defs sim_defs status_defs params_valid_def)

end
